theory Spec2Isabelle
  imports Complex_Main
begin

section \<open>Host values: strings, numbers, JSON data\<close>

text \<open>
  Strings are byte strings (\<open>char list\<close>), read as the UTF-8 encoding of the script's
  strings. The functions of this section are the host library's (string conversion,
  \<open>JSON.stringify\<close>, \<open>encodeURIComponent\<close>, \<open>URLSearchParams\<close>), written out on
  the values the request assembler passes to them.
\<close>

definition digit_char :: "int \<Rightarrow> char" where
  "digit_char d = ''0123456789'' ! nat d"

text \<open>The decimal digits of an integer that is not negative.\<close>

function show_digits :: "int \<Rightarrow> string" where
  "show_digits i =
     (if i < 10 then [digit_char i] else show_digits (i div 10) @ [digit_char (i mod 10)])"
  by pat_completeness auto
termination
  by (relation "measure nat") auto

declare show_digits.simps [simp del]

definition show_int :: "int \<Rightarrow> string" where
  "show_int i = (if i < 0 then CHR ''-'' # show_digits (- i) else show_digits i)"

text \<open>
  The script's conversion of a number to a string, for a number that is an integer:
  plain decimal below \<open>10^21\<close>, and from there on the exponent form \<open>d.ddde+n\<close> on the
  integer's digits without the trailing zeros. This is the script's text for every
  integer up to \<open>2^53\<close> in magnitude, and for every integer of at most 15 significant
  digits; a longer integer stands for no number of the script.
\<close>

definition exponent_form :: "int \<Rightarrow> string" where
  "exponent_form n =
     (let ds = show_digits n;
          sig = rev (dropWhile (\<lambda>c. c = CHR ''0'') (rev ds))
      in (case sig of
            [] \<Rightarrow> ''0''
          | d # more \<Rightarrow>
              d # (if more = [] then [] else CHR ''.'' # more)
                @ ''e+'' @ show_digits (int (length ds) - 1)))"

definition Number_toString :: "int \<Rightarrow> string" where
  "Number_toString i =
     (if \<bar>i\<bar> < 10 ^ 21 then show_int i
      else if i < 0 then CHR ''-'' # exponent_form (- i)
      else exponent_form i)"

fun intercalate :: "string \<Rightarrow> string list \<Rightarrow> string" where
  "intercalate sep [] = []"
| "intercalate sep [x] = x"
| "intercalate sep (x # y # ys) = x @ sep @ intercalate sep (y # ys)"

text \<open>
  A script value as far as request data, query values and decoded response bodies need
  it: the values of JSON, and \<open>undefined\<close>. Functions, symbols and big integers are not
  among them, and a number inside such data is an integer; an object is the list of
  its properties in insertion order, with distinct names.
\<close>

datatype jsvalue =
    JUndefined
  | JNull
  | JBool bool
  | JNum int
  | JStr string
  | JArr "jsvalue list"
  | JObj "(string \<times> jsvalue) list"

text \<open>\<open>String(v)\<close>, the conversion \<open>URLSearchParams\<close> applies to each name and value.\<close>

fun to_String :: "jsvalue \<Rightarrow> string" where
  "to_String JUndefined = ''undefined''"
| "to_String JNull = ''null''"
| "to_String (JBool b) = (if b then ''true'' else ''false'')"
| "to_String (JNum n) = Number_toString n"
| "to_String (JStr s) = s"
| "to_String (JArr xs) =
     intercalate '','' (map (\<lambda>x. if x = JUndefined \<or> x = JNull then [] else to_String x) xs)"
| "to_String (JObj kvs) = ''[object Object]''"

definition hex_upper :: "nat \<Rightarrow> char" where
  "hex_upper n = ''0123456789ABCDEF'' ! n"

definition hex_lower :: "nat \<Rightarrow> char" where
  "hex_lower n = ''0123456789abcdef'' ! n"

definition percent :: "char \<Rightarrow> string" where
  "percent c = [CHR ''%'', hex_upper (of_char c div 16), hex_upper (of_char c mod 16)]"

definition alphanumeric :: "char set" where
  "alphanumeric =
     set ''ABCDEFGHIJKLMNOPQRSTUVWXYZabcdefghijklmnopqrstuvwxyz0123456789''"

text \<open>\<open>encodeURIComponent\<close>: every byte but the unreserved marks is percent-encoded.\<close>

definition encodeURIComponent :: "string \<Rightarrow> string" where
  "encodeURIComponent s =
     concat (map (\<lambda>c. if c \<in> alphanumeric \<or> c \<in> set ''-_.!~*'' \<or> c \<in> {CHR 0x27, CHR ''('', CHR '')''}
                        then [c] else percent c) s)"

text \<open>
  The \<open>application/x-www-form-urlencoded\<close> serializer behind \<open>URLSearchParams\<close>'s
  string conversion: a space becomes \<open>+\<close>, the bytes \<open>* - . _\<close> and the alphanumerics
  stay, every other byte is percent-encoded; pairs are \<open>name=value\<close> joined by \<open>&\<close>.
\<close>

definition form_encode :: "string \<Rightarrow> string" where
  "form_encode s =
     concat (map (\<lambda>c. if c = CHR '' '' then ''+''
                      else if c \<in> alphanumeric \<or> c \<in> set ''*-._'' then [c]
                      else percent c) s)"

definition URLSearchParams :: "(string \<times> jsvalue) list \<Rightarrow> string" where
  "URLSearchParams pairs =
     intercalate ''&'' (map (\<lambda>(n, v). form_encode n @ ''='' @ form_encode (to_String v)) pairs)"

text \<open>
  \<open>JSON.stringify\<close>: \<open>None\<close> is the script's \<open>undefined\<close> (no text is produced); an
  \<open>undefined\<close> array element is written \<open>null\<close>, an \<open>undefined\<close> property is left out.
\<close>

definition json_escape :: "char \<Rightarrow> string" where
  "json_escape c =
     (if c = CHR 0x22 then [CHR 0x5C, CHR 0x22]
      else if c = CHR 0x5C then [CHR 0x5C, CHR 0x5C]
      else if c = CHR 0x08 then [CHR 0x5C, CHR ''b'']
      else if c = CHR 0x0C then [CHR 0x5C, CHR ''f'']
      else if c = CHR 0x0A then [CHR 0x5C, CHR ''n'']
      else if c = CHR 0x0D then [CHR 0x5C, CHR ''r'']
      else if c = CHR 0x09 then [CHR 0x5C, CHR ''t'']
      else if (of_char c :: nat) < 32
        then [CHR 0x5C, CHR ''u'', CHR ''0'', CHR ''0'', hex_lower (of_char c div 16), hex_lower (of_char c mod 16)]
      else [c])"

definition json_quote :: "string \<Rightarrow> string" where
  "json_quote s = [CHR 0x22] @ concat (map json_escape s) @ [CHR 0x22]"

fun JSON_stringify :: "jsvalue \<Rightarrow> string option"
  and stringify_elements :: "jsvalue list \<Rightarrow> string list"
  and stringify_properties :: "(string \<times> jsvalue) list \<Rightarrow> string list" where
  "JSON_stringify JUndefined = None"
| "JSON_stringify JNull = Some ''null''"
| "JSON_stringify (JBool b) = Some (if b then ''true'' else ''false'')"
| "JSON_stringify (JNum n) = Some (Number_toString n)"
| "JSON_stringify (JStr s) = Some (json_quote s)"
| "JSON_stringify (JArr xs) = Some (''['' @ intercalate '','' (stringify_elements xs) @ '']'')"
| "JSON_stringify (JObj kvs) = Some (''{'' @ intercalate '','' (stringify_properties kvs) @ ''}'')"
| "stringify_elements [] = []"
| "stringify_elements (x # xs) =
     (case JSON_stringify x of None \<Rightarrow> ''null'' | Some s \<Rightarrow> s) # stringify_elements xs"
| "stringify_properties [] = []"
| "stringify_properties ((k, v) # kvs) =
     (case JSON_stringify v of
        None \<Rightarrow> stringify_properties kvs
      | Some s \<Rightarrow> (json_quote k @ '':'' @ s) # stringify_properties kvs)"


text \<open>
  Script numbers, for the values read from response headers: exact rationals in place
  of doubles (no rounding), with \<open>NaN\<close> and the two infinities.
\<close>

datatype jsnum = NaN | Fin rat | PosInfinity | NegInfinity

fun js_neg :: "jsnum \<Rightarrow> jsnum" where
  "js_neg NaN = NaN"
| "js_neg (Fin a) = Fin (- a)"
| "js_neg PosInfinity = NegInfinity"
| "js_neg NegInfinity = PosInfinity"

fun js_add :: "jsnum \<Rightarrow> jsnum \<Rightarrow> jsnum" where
  "js_add (Fin a) (Fin b) = Fin (a + b)"
| "js_add NaN _ = NaN"
| "js_add _ NaN = NaN"
| "js_add PosInfinity NegInfinity = NaN"
| "js_add NegInfinity PosInfinity = NaN"
| "js_add PosInfinity _ = PosInfinity"
| "js_add _ PosInfinity = PosInfinity"
| "js_add NegInfinity _ = NegInfinity"
| "js_add _ NegInfinity = NegInfinity"

definition js_sub :: "jsnum \<Rightarrow> jsnum \<Rightarrow> jsnum" where
  "js_sub a b = js_add a (js_neg b)"

fun js_sign :: "jsnum \<Rightarrow> int" where
  "js_sign NaN = 0"
| "js_sign (Fin a) = (if a < 0 then - 1 else if a = 0 then 0 else 1)"
| "js_sign PosInfinity = 1"
| "js_sign NegInfinity = - 1"

fun js_mul :: "jsnum \<Rightarrow> jsnum \<Rightarrow> jsnum" where
  "js_mul (Fin a) (Fin b) = Fin (a * b)"
| "js_mul a b =
     (if js_sign a * js_sign b = 0 then NaN
      else if 0 < js_sign a * js_sign b then PosInfinity else NegInfinity)"

fun js_lt :: "jsnum \<Rightarrow> jsnum \<Rightarrow> bool" where
  "js_lt (Fin a) (Fin b) = (a < b)"
| "js_lt NaN _ = False"
| "js_lt _ NaN = False"
| "js_lt NegInfinity b = (b \<noteq> NegInfinity)"
| "js_lt a PosInfinity = (a \<noteq> PosInfinity)"
| "js_lt _ _ = False"

definition js_le :: "jsnum \<Rightarrow> jsnum \<Rightarrow> bool" where
  "js_le a b = (js_lt a b \<or> (a = b \<and> a \<noteq> NaN))"

definition is_digit :: "char \<Rightarrow> bool" where
  "is_digit c = (c \<in> set ''0123456789'')"

definition digits_value :: "string \<Rightarrow> nat" where
  "digits_value s = foldl (\<lambda>a c. 10 * a + (of_char c - 48)) 0 s"

text \<open>
  \<open>Number(s)\<close>, the script's reading of a string as a number: white space around the
  literal is dropped; the empty string is 0; \<open>0x\<close>, \<open>0o\<close> and \<open>0b\<close> (in either case)
  start an unsigned hexadecimal, octal or binary integer; otherwise the literal is an
  optional sign followed by \<open>Infinity\<close> or by decimal digits with an optional fraction
  and an optional exponent, at least one digit standing before the exponent; anything
  else is \<open>NaN\<close>. The value is the exact rational: there is no rounding to a double,
  no overflow to infinity and no negative zero. The white space is the ASCII one.
\<close>

definition is_space :: "char \<Rightarrow> bool" where
  "is_space c = (c \<in> {CHR 0x09, CHR 0x0A, CHR 0x0B, CHR 0x0C, CHR 0x0D, CHR '' ''})"

definition trim :: "string \<Rightarrow> string" where
  "trim s = rev (dropWhile is_space (rev (dropWhile is_space s)))"

definition radix_digit :: "char \<Rightarrow> nat option" where
  "radix_digit c =
     (let n = (of_char c :: nat)
      in if 48 \<le> n \<and> n \<le> 57 then Some (n - 48)
         else if 97 \<le> n \<and> n \<le> 102 then Some (n - 87)
         else if 65 \<le> n \<and> n \<le> 70 then Some (n - 55)
         else None)"

definition radix_literal :: "nat \<Rightarrow> string \<Rightarrow> jsnum" where
  "radix_literal base s =
     (if s \<noteq> [] \<and> list_all (\<lambda>c. case radix_digit c of None \<Rightarrow> False | Some d \<Rightarrow> d < base) s
      then Fin (of_nat (foldl (\<lambda>a c. base * a + (case radix_digit c of None \<Rightarrow> 0 | Some d \<Rightarrow> d)) 0 s))
      else NaN)"

text \<open>The exponent part: nothing (0), or \<open>e\<close> or \<open>E\<close>, an optional sign and digits.\<close>

definition exponent_part :: "string \<Rightarrow> int option" where
  "exponent_part s =
     (case s of
        [] \<Rightarrow> Some 0
      | c # r \<Rightarrow>
          if c = CHR ''e'' \<or> c = CHR ''E'' then
            (let negative = (r \<noteq> [] \<and> hd r = CHR ''-'');
                 ds = (if r \<noteq> [] \<and> (hd r = CHR ''-'' \<or> hd r = CHR ''+'') then tl r else r)
             in if ds \<noteq> [] \<and> list_all is_digit ds
                then Some (if negative then - int (digits_value ds) else int (digits_value ds))
                else None)
          else None)"

definition unsigned_literal :: "string \<Rightarrow> jsnum" where
  "unsigned_literal s =
     (if s = ''Infinity'' then PosInfinity
      else let ip = takeWhile is_digit s;
               after_ip = dropWhile is_digit s;
               dotted = (after_ip \<noteq> [] \<and> hd after_ip = CHR ''.'');
               fp = (if dotted then takeWhile is_digit (tl after_ip) else []);
               after_fp = (if dotted then dropWhile is_digit (tl after_ip) else after_ip);
               mantissa = (of_nat (digits_value ip) + of_nat (digits_value fp) / 10 ^ length fp :: rat)
           in if ip = [] \<and> fp = [] then NaN
              else (case exponent_part after_fp of
                      None \<Rightarrow> NaN
                    | Some e \<Rightarrow>
                        Fin (if 0 \<le> e then mantissa * 10 ^ nat e else mantissa / 10 ^ nat (- e))))"

definition Number :: "string \<Rightarrow> jsnum" where
  "Number s =
     (let t = trim s
      in if t = [] then Fin 0
         else if take 2 t = ''0x'' \<or> take 2 t = ''0X'' then radix_literal 16 (drop 2 t)
         else if take 2 t = ''0o'' \<or> take 2 t = ''0O'' then radix_literal 8 (drop 2 t)
         else if take 2 t = ''0b'' \<or> take 2 t = ''0B'' then radix_literal 2 (drop 2 t)
         else if hd t = CHR ''-'' then js_neg (unsigned_literal (tl t))
         else if hd t = CHR ''+'' then unsigned_literal (tl t)
         else unsigned_literal t)"

fun typeof :: "jsvalue \<Rightarrow> string" where
  "typeof JUndefined = ''undefined''"
| "typeof JNull = ''object''"
| "typeof (JBool b) = ''boolean''"
| "typeof (JNum n) = ''number''"
| "typeof (JStr s) = ''string''"
| "typeof (JArr xs) = ''object''"
| "typeof (JObj kvs) = ''object''"

section \<open>Data model\<close>

text \<open>
  Modelled from the spec: the types \<open>RouteIdentifier\<close>, \<open>Request\<close> and the entries of
  \<open>files\<close>, which \<open>REST.ts\<close> declares and which is not among the sources. The fields
  are those of the spec's data model, which are also the ones \<open>resolveRequest\<close> and
  \<open>queueRequest\<close> read. An optional field is an \<open>option\<close>; \<open>data\<close> is \<open>JUndefined\<close>
  when absent. A file's content is a buffer, \<open>None\<close> when the entry carries none.
  (\<open>method\<close> and \<open>file\<close> are written \<open>method'\<close> and \<open>file'\<close>.)
\<close>

record RouteIdentifier =
  route :: string
  majorParameter :: string

record File =
  name :: string
  file' :: "string option"

record Request =
  method' :: string
  endpoint :: string
  query :: "(string \<times> jsvalue) list option"
  headers :: "(string \<rightharpoonup> string) option"
  data :: jsvalue
  files :: "File list option"
  auth :: "bool option"
  reason :: "string option"

record RESTOptions =
  userAgentAppendix :: string
  offset :: int
  retries :: int
  timeout :: int
  version :: int
  api :: string
  cdn :: string

text \<open>A \<open>FormData\<close> body: its boundary and the appended fields (name, content, file name).\<close>

datatype part = Part string string "string option"

datatype body = FormData string "part list" | Text string

record RequestInit =
  init_method :: string
  init_headers :: "string \<rightharpoonup> string"
  init_body :: "body option"

text \<open>
  What is thrown. \<open>Error\<close> is the plain error of \<open>resolveRequest\<close> with its message;
  \<open>FetchRejected\<close> is the error \<open>fetch\<close> rejected with, by its name; \<open>HTTPError\<close> and
  \<open>DiscordAPIError\<close> carry the arguments their constructors are called with (status
  text, class name, status, method, URL; message, code, status, method, URL);
  \<open>TypeError\<close> is a property read on \<open>null\<close>, \<open>InvalidJson\<close> the rejection of
  \<open>res.json()\<close>.
\<close>

datatype error =
    Error string
  | FetchRejected string
  | HTTPError string string int string string
  | DiscordAPIError jsvalue jsvalue int string string
  | TypeError
  | InvalidJson

text \<open>
  The bucket handler's fields. \<open>asyncQueue\<close> is the number of requests that have
  entered the handler's queue and not yet left it (\<open>asyncQueue.remaining\<close>).
\<close>

record RequestHandler =
  id' :: string
  asyncQueue :: nat
  reset :: jsnum
  remaining :: jsnum
  limit :: jsnum
  hash :: string
  handler_majorParameter :: string

text \<open>
  The manager. \<open>globalTimeout\<close> is the pending promise, named by the time at which it
  resolves, or \<open>None\<close> for \<open>null\<close>.
\<close>

record RESTManager =
  globalTimeout :: "int option"
  options :: RESTOptions
  hashes :: "string \<rightharpoonup> string"
  queues :: "string \<rightharpoonup> RequestHandler"
  token :: "string option"

text \<open>\<open>package.json\<close> is not among the sources: its two fields are parameters.\<close>

record Package =
  repository_url :: string
  package_version :: string

definition UserAgent :: "Package \<Rightarrow> string" where
  "UserAgent pkg = ''DiscordBot ('' @ repository_url pkg @ '', '' @ package_version pkg @ '')''"

definition RestOptionsDefaults :: "string \<Rightarrow> RESTOptions" where
  "RestOptionsDefaults process_version =
     \<lparr> userAgentAppendix = ''Node.js/'' @ process_version, offset = 100, retries = 1,
       timeout = 15000, version = 7, api = ''https://discord.com/api'',
       cdn = ''https://cdn.discordapp.com'' \<rparr>"

section \<open>Request assembly\<close>

text \<open>
  \<open>RESTManager.resolveRequest\<close>. The multipart boundary is chosen by the form-data
  library and is a parameter. A \<open>throw\<close> is the \<open>Inl\<close> result.
\<close>

definition resolveRequest ::
  "Package \<Rightarrow> string \<Rightarrow> RESTManager \<Rightarrow> Request \<Rightarrow> error + string \<times> RequestInit" where
  "resolveRequest pkg boundary m request =
     (let querystring =
            (case query request of
               None \<Rightarrow> []
             | Some q \<Rightarrow>
                 ''?'' @ URLSearchParams
                   (filter (\<lambda>(n, value). value \<noteq> JNull \<and> JStr (typeof value) \<noteq> JUndefined) q));
          url = api (options m) @ ''/v'' @ Number_toString (version (options m)) @ endpoint request
                  @ querystring;
          headers0 = [''User-Agent'' \<mapsto> UserAgent pkg @ '' '' @ userAgentAppendix (options m),
                      ''X-RateLimit-Precision'' \<mapsto> ''millisecond'']
      in if (auth request = None \<or> auth request = Some True)
            \<and> (token m = None \<or> token m = Some [])
         then Inl (Error ''No bot token has been provided, and is required for the action you are trying to do.'')
         else
           let headers1 =
                 (if auth request = None \<or> auth request = Some True
                  then (case token m of
                          Some t \<Rightarrow> headers0(''Authorization'' \<mapsto> ''Bot '' @ t)
                        | None \<Rightarrow> headers0)
                  else headers0);
               headers2 =
                 (case reason request of
                    Some r \<Rightarrow>
                      if r \<noteq> [] then headers1(''X-Audit-Log-Reason'' \<mapsto> encodeURIComponent r)
                      else headers1
                  | None \<Rightarrow> headers1);
               uploads = (case files request of None \<Rightarrow> [] | Some fs \<Rightarrow> fs);
               (body, additionalHeaders) =
                 (if uploads \<noteq> [] then
                    (Some (FormData boundary
                       (concat (map (\<lambda>f. case file' f of
                                             Some content \<Rightarrow> [Part (name f) content (Some (name f))]
                                           | None \<Rightarrow> []) uploads)
                        @ (if typeof (data request) \<noteq> ''undefined''
                           then (case JSON_stringify (data request) of
                                   Some s \<Rightarrow> [Part ''payload_json'' s None]
                                 | None \<Rightarrow> [])
                           else []))),
                     [''content-type'' \<mapsto> ''multipart/form-data; boundary='' @ boundary])
                  else if data request \<noteq> JNull \<and> data request \<noteq> JUndefined then
                    (map_option Text (JSON_stringify (data request)),
                     [''Content-Type'' \<mapsto> ''application/json''])
                  else (None, Map.empty))
           in Inr (url,
                   \<lparr> init_method = method' request,
                     init_headers =
                       (case headers request of None \<Rightarrow> Map.empty | Some hs \<Rightarrow> hs)
                         ++ additionalHeaders ++ headers2,
                     init_body = body \<rparr>))"

section \<open>The host: clock, timers, network\<close>

text \<open>
  A response as the transport hands it over. \<open>res_headers\<close> is the \<open>get\<close> method of
  \<open>res.headers\<close> (\<open>None\<close> when the response has no headers object); \<open>json\<close> is what
  \<open>res.json()\<close> resolves to (\<open>None\<close> when it rejects), \<open>buffer\<close> what \<open>res.buffer()\<close>
  resolves to.
\<close>

record Response =
  status :: int
  statusText :: string
  res_headers :: "(string \<rightharpoonup> string) option"
  json :: "jsvalue option"
  buffer :: string

datatype payload = Json jsvalue | Buffer string

text \<open>
  How one \<open>fetch\<close> call ends: it resolves with a response, or rejects with an error of
  the given name. Each outcome comes with the milliseconds the call took.
\<close>

datatype outcome = Resolved Response | Rejected string

text \<open>
  What the handler does to the outside, in order: each \<open>fetch\<close> call (with the
  \<open>retries\<close> argument of the \<open>makeRequest\<close> call and the manager's \<open>globalTimeout\<close>
  at that moment), and the events it emits (the two debug messages by their parts).
\<close>

datatype event =
    Fetch string int "int option"
  | Ratelimited jsnum jsnum string string string string
  | DebugHashUpdate string string string string
  | Debug429 string jsnum

text \<open>
  The event loop as one request sees it. \<open>now\<close> is \<open>Date.now()\<close>; \<open>timers\<close> are the
  times at which the pending callbacks that clear \<open>globalTimeout\<close> run; \<open>others\<close> are
  the global limits the other handlers of the manager will set, as (time,
  \<open>retryAfter\<close>) in order of time; \<open>events\<close> is the trace so far. A timer runs exactly
  when it is due; reading a response body takes no time.
\<close>

record Host =
  now :: int
  timers :: "int list"
  others :: "(int \<times> jsnum) list"
  events :: "event list"

text \<open>\<open>sleep(ms)\<close> is \<open>setTimeout\<close>: a delay outside 1 .. 2^31 - 1 (or \<open>NaN\<close>) is 1.\<close>

fun sleep_ms :: "jsnum \<Rightarrow> int" where
  "sleep_ms (Fin q) = (if 1 \<le> q \<and> q \<le> 2147483647 then \<lceil>q\<rceil> else 1)"
| "sleep_ms _ = 1"

text \<open>The callbacks due at time \<open>t\<close> run: each sets \<open>globalTimeout\<close> to \<open>null\<close>.\<close>

definition fire :: "int \<Rightarrow> RESTManager \<times> Host \<Rightarrow> RESTManager \<times> Host" where
  "fire t s =
     (case s of (m, h) \<Rightarrow>
        if list_ex (\<lambda>d. d \<le> t) (timers h)
        then (m\<lparr>globalTimeout := None\<rparr>, h\<lparr>timers := filter (\<lambda>d. t < d) (timers h)\<rparr>)
        else (m, h))"

text \<open>
  \<open>manager.globalTimeout = sleep(retryAfter).then(() => manager.globalTimeout = null)\<close>,
  executed at time \<open>t\<close>.
\<close>

definition setGlobalTimeout :: "int \<Rightarrow> jsnum \<Rightarrow> RESTManager \<times> Host \<Rightarrow> RESTManager \<times> Host" where
  "setGlobalTimeout t retryAfter s =
     (case s of (m, h) \<Rightarrow>
        (m\<lparr>globalTimeout := Some (t + sleep_ms retryAfter)\<rparr>,
         h\<lparr>timers := timers h @ [t + sleep_ms retryAfter]\<rparr>))"

text \<open>
  The request is suspended until time \<open>T\<close>: meanwhile the other handlers set their
  global limits and the due callbacks run, in order of time.
\<close>

fun advance :: "int \<Rightarrow> (int \<times> jsnum) list \<Rightarrow> RESTManager \<times> Host \<Rightarrow> RESTManager \<times> Host" where
  "advance T [] s = (case fire T s of (m, h) \<Rightarrow> (m, h\<lparr>now := T, others := []\<rparr>))"
| "advance T ((t, retryAfter) # rest) s =
     (if t \<le> T then advance T rest (setGlobalTimeout t retryAfter (fire t s))
      else (case fire T s of (m, h) \<Rightarrow> (m, h\<lparr>now := T, others := (t, retryAfter) # rest\<rparr>)))"

definition suspend :: "int \<Rightarrow> RESTManager \<times> Host \<Rightarrow> RESTManager \<times> Host" where
  "suspend T s = advance T (others (snd s)) s"

definition emit :: "event \<Rightarrow> Host \<Rightarrow> Host" where
  "emit e h = h\<lparr>events := events h @ [e]\<rparr>"

section \<open>The bucket handler\<close>

definition new_RequestHandler :: "string \<Rightarrow> string \<Rightarrow> RequestHandler" where
  "new_RequestHandler hash_arg major =
     \<lparr> id' = hash_arg @ '':'' @ major, asyncQueue = 0, reset = Fin (- 1), remaining = Fin 1,
       limit = PosInfinity, hash = hash_arg, handler_majorParameter = major \<rparr>"

text \<open>The getters, with \<open>Date.now()\<close> as the argument \<open>t\<close>.\<close>

definition limited :: "int \<Rightarrow> RequestHandler \<Rightarrow> bool" where
  "limited t handler = (js_le (remaining handler) (Fin 0) \<and> js_lt (Fin (of_int t)) (reset handler))"

definition inactive :: "int \<Rightarrow> RequestHandler \<Rightarrow> bool" where
  "inactive t handler = (asyncQueue handler = 0 \<and> \<not> limited t handler)"

definition timeToReset :: "int \<Rightarrow> RequestHandler \<Rightarrow> jsnum" where
  "timeToReset t handler = js_sub (reset handler) (Fin (of_int t))"

definition ok :: "Response \<Rightarrow> bool" where
  "ok res = (200 \<le> status res \<and> status res < 300)"

definition parseResponse :: "Response \<Rightarrow> error + payload" where
  "parseResponse res =
     (case res_headers res of
        None \<Rightarrow> Inl TypeError
      | Some get \<Rightarrow>
          (case get ''Content-Type'' of
             Some ct \<Rightarrow>
               if take (length ''application/json'') ct = ''application/json''
               then (case json res of Some v \<Rightarrow> Inr (Json v) | None \<Rightarrow> Inl InvalidJson)
               else Inr (Buffer (buffer res))
           | None \<Rightarrow> Inr (Buffer (buffer res))))"

text \<open>
  Reading \<open>data.message\<close> and \<open>data.code\<close> off a decoded body: a property of an object,
  \<open>undefined\<close> on any other value, a \<open>TypeError\<close> on \<open>null\<close>.
\<close>

fun property :: "payload \<Rightarrow> string \<Rightarrow> error + jsvalue" where
  "property (Json JNull) k = Inl TypeError"
| "property (Json JUndefined) k = Inl TypeError"
| "property (Json (JObj kvs)) k = Inr (case map_of kvs k of Some v \<Rightarrow> v | None \<Rightarrow> JUndefined)"
| "property _ k = Inr JUndefined"

text \<open>A header value counts when it is there and not the empty string.\<close>

fun truthy :: "string option \<Rightarrow> bool" where
  "truthy None = False"
| "truthy (Some v) = (v \<noteq> [])"

text \<open>
  The header block of \<open>makeRequest\<close> (\<open>let retryAfter = 0\<close> up to the end of
  \<open>if (res.headers)\<close>), statement by statement; \<open>get\<close> is \<open>res.headers.get\<close>.

  The three assignments to \<open>this.limit\<close>, \<open>this.remaining\<close> and \<open>this.reset\<close>, with
  \<open>Date.now()\<close> as \<open>t\<close>:
\<close>

definition updateLimits ::
  "int \<Rightarrow> RESTOptions \<Rightarrow> (string \<rightharpoonup> string) \<Rightarrow> RequestHandler \<Rightarrow> RequestHandler" where
  "updateLimits t opts get handler =
     handler\<lparr>
       limit := (if truthy (get ''X-RateLimit-Limit'')
                 then Number (the (get ''X-RateLimit-Limit'')) else PosInfinity),
       remaining := (if truthy (get ''X-RateLimit-Remaining'')
                     then Number (the (get ''X-RateLimit-Remaining'')) else Fin 1),
       reset := (if truthy (get ''X-RateLimit-Reset-After'')
                 then js_add (js_add (js_mul (Number (the (get ''X-RateLimit-Reset-After''))) (Fin 1000))
                                (Fin (of_int t)))
                        (Fin (of_int (offset opts)))
                 else Fin (of_int t))\<rparr>"

text \<open>\<open>cloudflare\<close> and the assignment to \<open>retryAfter\<close> (initially 0):\<close>

definition retryAfter_of :: "RESTOptions \<Rightarrow> (string \<rightharpoonup> string) \<Rightarrow> jsnum" where
  "retryAfter_of opts get =
     (let retry = get ''Retry-After'';
          cloudflare = \<not> truthy (get ''Via'')
      in if truthy retry
         then js_add (js_mul (Number (the retry)) (Fin (if cloudflare then 1000 else 1)))
                (Fin (of_int (offset opts)))
         else Fin 0)"

text \<open>The bucket hash learnt from the response:\<close>

definition updateHash ::
  "RouteIdentifier \<Rightarrow> RequestInit \<Rightarrow> (string \<rightharpoonup> string) \<Rightarrow> RequestHandler
     \<Rightarrow> RESTManager \<times> Host \<Rightarrow> RESTManager \<times> Host" where
  "updateHash routeID opts get handler s =
     (case s of (m, h) \<Rightarrow>
        let hash_hdr = get ''X-RateLimit-Bucket''
        in if truthy hash_hdr \<and> the hash_hdr \<noteq> hash handler
           then (m\<lparr>hashes := (hashes m)(init_method opts @ ''-'' @ route routeID \<mapsto> the hash_hdr)\<rparr>,
                 emit (DebugHashUpdate (hash handler) (the hash_hdr) (init_method opts)
                         (route routeID)) h)
           else (m, h))"

text \<open>The block as a whole: it yields \<open>retryAfter\<close> and the updated objects.\<close>

definition applyHeaders ::
  "RouteIdentifier \<Rightarrow> RequestInit \<Rightarrow> Response \<Rightarrow> RESTManager \<times> RequestHandler \<times> Host
     \<Rightarrow> jsnum \<times> RESTManager \<times> RequestHandler \<times> Host" where
  "applyHeaders routeID opts res s =
     (case s of (m, handler, h) \<Rightarrow>
        (case res_headers res of
           None \<Rightarrow> (Fin 0, m, handler, h)
         | Some get \<Rightarrow>
             let handler1 = updateLimits (now h) (options m) get handler;
                 retryAfter = retryAfter_of (options m) get;
                 (m1, h1) = updateHash routeID opts get handler (m, h);
                 (m2, h2) = (if truthy (get ''X-RateLimit-Global'')
                             then setGlobalTimeout (now h1) retryAfter (m1, h1)
                             else (m1, h1))
             in (retryAfter, m2, handler1, h2)))"

text \<open>
  One pass through the body of \<open>makeRequest\<close>: either the call returns or throws
  (\<open>Return\<close>), or it ends in the recursive call \<open>makeRequest(routeID, url, options, n)\<close>
  (\<open>Again n\<close>).
\<close>

datatype verdict = Return "error + payload" | Again int

definition attempt ::
  "RouteIdentifier \<Rightarrow> string \<Rightarrow> RequestInit \<Rightarrow> int \<Rightarrow> outcome \<times> int
     \<Rightarrow> RESTManager \<times> RequestHandler \<times> Host \<Rightarrow> verdict \<times> RESTManager \<times> RequestHandler \<times> Host" where
  "attempt routeID url opts retries_arg oc s =
     (case s of (m, handler, h) \<Rightarrow>
      case oc of (out, elapsed) \<Rightarrow>
        let h0 = emit (Fetch url retries_arg (globalTimeout m)) h;
            (m1, h1) = suspend (now h0 + elapsed) (m, h0)
        in (case out of
              Rejected error_name \<Rightarrow>
                if error_name = ''AbortError'' \<and> retries_arg \<noteq> retries (options m1)
                then (Again (retries_arg + 1), m1, handler, h1)
                else (Return (Inl (FetchRejected error_name)), m1, handler, h1)
            | Resolved res \<Rightarrow>
                (case applyHeaders routeID opts res (m1, handler, h1) of
                   (retryAfter, m2, handler2, h2) \<Rightarrow>
                     if ok res then (Return (parseResponse res), m2, handler2, h2)
                     else if status res = 429 then
                       (case suspend (now h2 + sleep_ms retryAfter)
                               (m2, emit (Debug429 (route routeID) retryAfter) h2) of
                          (m3, h3) \<Rightarrow> (Again retries_arg, m3, handler2, h3))
                     else if 500 \<le> status res \<and> status res < 600 then
                       (if retries_arg \<noteq> retries (options m2)
                        then (Again (retries_arg + 1), m2, handler2, h2)
                        else (Return (Inl (HTTPError (statusText res) ''Response'' (status res)
                                             (init_method opts) url)), m2, handler2, h2))
                     else if 400 \<le> status res \<and> status res < 500 then
                       (case parseResponse res of
                          Inl e \<Rightarrow> (Return (Inl e), m2, handler2, h2)
                        | Inr data_arg \<Rightarrow>
                            (case property data_arg ''message'' of
                               Inl e \<Rightarrow> (Return (Inl e), m2, handler2, h2)
                             | Inr message \<Rightarrow>
                                 (case property data_arg ''code'' of
                                    Inl e \<Rightarrow> (Return (Inl e), m2, handler2, h2)
                                  | Inr code \<Rightarrow>
                                      (Return (Inl (DiscordAPIError message code (status res)
                                                      (init_method opts) url)), m2, handler2, h2))))
                     else (Return (Inr (Json JNull)), m2, handler2, h2))))"

text \<open>
  \<open>makeRequest\<close>, run against the outcomes of its \<open>fetch\<close> calls in order. When the
  outcomes run out the last call is still in flight and there is no result (\<open>None\<close>).
\<close>

fun makeRequest ::
  "RouteIdentifier \<Rightarrow> string \<Rightarrow> RequestInit \<Rightarrow> int \<Rightarrow> (outcome \<times> int) list
     \<Rightarrow> RESTManager \<times> RequestHandler \<times> Host
     \<Rightarrow> (error + payload) option \<times> RESTManager \<times> RequestHandler \<times> Host" where
  "makeRequest routeID url opts retries_arg [] s =
     (case s of (m, handler, h) \<Rightarrow> (None, m, handler, emit (Fetch url retries_arg (globalTimeout m)) h))"
| "makeRequest routeID url opts retries_arg (oc # script) s =
     (case attempt routeID url opts retries_arg oc s of
        (Return r, s') \<Rightarrow> (Some r, s')
      | (Again n, s') \<Rightarrow> makeRequest routeID url opts n script s')"

text \<open>
  \<open>push\<close>, from the moment the request is at the head of the handler's queue
  (\<open>asyncQueue.wait()\<close> has resolved). The queue is released when \<open>makeRequest\<close> has
  returned or thrown.
\<close>

definition push ::
  "RouteIdentifier \<Rightarrow> string \<Rightarrow> RequestInit \<Rightarrow> (outcome \<times> int) list
     \<Rightarrow> RESTManager \<times> RequestHandler \<times> Host
     \<Rightarrow> (error + payload) option \<times> RESTManager \<times> RequestHandler \<times> Host" where
  "push routeID url opts script s =
     (case s of (m, handler, h) \<Rightarrow>
        let handler1 = handler\<lparr>asyncQueue := asyncQueue handler + 1\<rparr>;
            (m1, h1) = (case globalTimeout m of
                          None \<Rightarrow> (m, h)
                        | Some d \<Rightarrow> suspend (max d (now h)) (m, h));
            (m2, h2) = (if limited (now h1) handler1
                        then suspend (now h1 + sleep_ms (timeToReset (now h1) handler1))
                               (m1, emit (Ratelimited (timeToReset (now h1) handler1) (limit handler1)
                                            (init_method opts) (hash handler1) (route routeID)
                                            (handler_majorParameter handler1)) h1)
                        else (m1, h1))
        in (case makeRequest routeID url opts 0 script (m2, handler1, h2) of
              (None, s') \<Rightarrow> (None, s')
            | (Some r, m3, handler3, h3) \<Rightarrow> (Some r, m3, handler3\<lparr>asyncQueue := asyncQueue handler3 - 1\<rparr>, h3)))"

section \<open>The manager\<close>

text \<open>
  The constructor, from the options already merged with the defaults and the
  \<open>DISCORD_TOKEN\<close> variable of the environment.
\<close>

definition new_RESTManager :: "RESTOptions \<Rightarrow> string option \<Rightarrow> RESTManager" where
  "new_RESTManager opts env_token =
     \<lparr> globalTimeout = None,
       options = opts\<lparr>offset := max 0 (offset opts)\<rparr>,
       hashes = Map.empty,
       queues = Map.empty,
       token = (if truthy env_token then env_token else None) \<rparr>"

definition createQueue :: "RESTManager \<Rightarrow> string \<Rightarrow> string \<Rightarrow> RequestHandler \<times> RESTManager" where
  "createQueue m hash_arg major =
     (let queue = new_RequestHandler hash_arg major
      in (queue, m\<lparr>queues := (queues m)(id' queue \<mapsto> queue)\<rparr>))"

text \<open>
  \<open>queueRequest\<close>. The handler is an object of the \<open>queues\<close> table: what \<open>push\<close> does to
  it is written back under its key. An error thrown by \<open>resolveRequest\<close> leaves
  \<open>queueRequest\<close> before \<open>push\<close> is called.
\<close>

definition queueRequest ::
  "Package \<Rightarrow> string \<Rightarrow> RouteIdentifier \<Rightarrow> Request \<Rightarrow> (outcome \<times> int) list
     \<Rightarrow> RESTManager \<times> Host \<Rightarrow> (error + payload) option \<times> RESTManager \<times> Host" where
  "queueRequest pkg boundary routeID request script s =
     (case s of (m, h) \<Rightarrow>
        let known = hashes m (method' request @ ''-'' @ route routeID);
            hash_arg = (if truthy known then the known
                        else ''UnknownHash('' @ route routeID @ '')'');
            (queue, m1) = (case queues m (hash_arg @ '':'' @ majorParameter routeID) of
                             Some q \<Rightarrow> (q, m)
                           | None \<Rightarrow> createQueue m hash_arg (majorParameter routeID))
        in (case resolveRequest pkg boundary m1 request of
              Inl e \<Rightarrow> (Some (Inl e), m1, h)
            | Inr (url, opts) \<Rightarrow>
                (case push routeID url opts script (m1, queue, h) of
                   (r, m2, queue', h') \<Rightarrow>
                     (r, m2\<lparr>queues := (queues m2)(id' queue' \<mapsto> queue')\<rparr>, h'))))"

text \<open>
  \<open>Cache.sweep(fn)\<close> deletes the entries whose value satisfies \<open>fn\<close>; the sweeper runs
  it with \<open>handler.inactive\<close>, every five minutes, \<open>t\<close> being \<open>Date.now()\<close> then.
\<close>

definition sweep :: "('v \<Rightarrow> bool) \<Rightarrow> ('k \<rightharpoonup> 'v) \<Rightarrow> ('k \<rightharpoonup> 'v)" where
  "sweep fn cache = (\<lambda>k. case cache k of None \<Rightarrow> None | Some v \<Rightarrow> if fn v then None else Some v)"

definition sweeper :: "int \<Rightarrow> RESTManager \<Rightarrow> RESTManager" where
  "sweeper t m = m\<lparr>queues := sweep (inactive t) (queues m)\<rparr>"

section \<open>Notions used by the statements\<close>

text \<open>The \<open>retries\<close> arguments of the \<open>fetch\<close> calls of a trace, in order.\<close>

fun fetch_retries :: "event list \<Rightarrow> int list" where
  "fetch_retries [] = []"
| "fetch_retries (Fetch u r g # es) = r # fetch_retries es"
| "fetch_retries (e # es) = fetch_retries es"

definition sent :: "Host \<Rightarrow> int list" where
  "sent h = fetch_retries (events h)"

text \<open>
  The three header sets of the specification's merge order. The caller's headers are
  \<open>request.headers\<close> or none. The body-type headers: the multipart content type when
  \<open>files\<close> is non-empty, else the JSON content type when \<open>data\<close> is non-null, else none.
  The mandatory headers: \<open>User-Agent\<close>, \<open>X-RateLimit-Precision\<close>, \<open>Authorization\<close> when
  \<open>auth\<close> is true or unset, \<open>X-Audit-Log-Reason\<close> when a reason is given.
\<close>

definition caller_headers :: "Request \<Rightarrow> (string \<rightharpoonup> string)" where
  "caller_headers request = (case headers request of None \<Rightarrow> Map.empty | Some hs \<Rightarrow> hs)"

definition spec_body_headers :: "string \<Rightarrow> Request \<Rightarrow> (string \<rightharpoonup> string)" where
  "spec_body_headers boundary request =
     (if files request \<noteq> None \<and> files request \<noteq> Some []
      then [''content-type'' \<mapsto> ''multipart/form-data; boundary='' @ boundary]
      else if data request \<noteq> JNull \<and> data request \<noteq> JUndefined
      then [''Content-Type'' \<mapsto> ''application/json'']
      else Map.empty)"

definition spec_mandatory_headers :: "Package \<Rightarrow> RESTManager \<Rightarrow> Request \<Rightarrow> (string \<rightharpoonup> string)" where
  "spec_mandatory_headers pkg m request =
     [''User-Agent'' \<mapsto> UserAgent pkg @ '' '' @ userAgentAppendix (options m),
      ''X-RateLimit-Precision'' \<mapsto> ''millisecond'']
     ++ (if auth request = Some False then Map.empty
         else (case token m of
                 Some t \<Rightarrow> [''Authorization'' \<mapsto> ''Bot '' @ t]
               | None \<Rightarrow> Map.empty))
     ++ (case reason request of
           Some r \<Rightarrow>
             if r \<noteq> [] then [''X-Audit-Log-Reason'' \<mapsto> encodeURIComponent r] else Map.empty
         | None \<Rightarrow> Map.empty)"


text \<open>
  The URL and the body \<open>resolveRequest\<close> returns, as closed expressions of the request
  (lemma \<open>resolveRequest_returns\<close> below). In the URL the second test of the filter,
  \<open>typeof value !== undefined\<close>, is gone: it compares a string with \<open>undefined\<close> and
  holds of every value.
\<close>

definition request_url :: "RESTManager \<Rightarrow> Request \<Rightarrow> string" where
  "request_url m request =
     api (options m) @ ''/v'' @ Number_toString (version (options m)) @ endpoint request
       @ (case query request of
            None \<Rightarrow> []
          | Some q \<Rightarrow> ''?'' @ URLSearchParams (filter (\<lambda>(n, v). v \<noteq> JNull) q))"

definition request_body :: "string \<Rightarrow> Request \<Rightarrow> body option" where
  "request_body boundary request =
     (if files request \<noteq> None \<and> files request \<noteq> Some [] then
        Some (FormData boundary
           (concat (map (\<lambda>f. case file' f of
                                 Some content \<Rightarrow> [Part (name f) content (Some (name f))]
                               | None \<Rightarrow> []) (the (files request)))
            @ (if data request \<noteq> JUndefined
               then [Part ''payload_json'' (the (JSON_stringify (data request))) None]
               else [])))
      else if data request \<noteq> JNull \<and> data request \<noteq> JUndefined
        then Some (Text (the (JSON_stringify (data request))))
      else None)"

section \<open>Concrete inputs\<close>

definition example_package :: Package where
  "example_package =
     \<lparr> repository_url = ''https://github.com/dirigeants/rest'', package_version = ''0.5.0'' \<rparr>"

definition example_manager :: RESTManager where
  "example_manager = new_RESTManager (RestOptionsDefaults ''v12.18.0'') (Some ''secret'')"

definition example_manager_no_token :: RESTManager where
  "example_manager_no_token = new_RESTManager (RestOptionsDefaults ''v12.18.0'') None"

definition example_manager_negative_retries :: RESTManager where
  "example_manager_negative_retries =
     new_RESTManager ((RestOptionsDefaults ''v12.18.0'')\<lparr>retries := - 1\<rparr>) (Some ''secret'')"

definition example_host :: Host where
  "example_host = \<lparr> now = 1000, timers = [], others = [], events = [] \<rparr>"

definition example_route :: RouteIdentifier where
  "example_route = \<lparr> route = ''/channels/42/messages'', majorParameter = ''42'' \<rparr>"

definition example_request :: Request where
  "example_request =
     \<lparr> method' = ''GET'', endpoint = ''/channels/42/messages'',
       query = Some [(''limit'', JNum 10), (''before'', JNull), (''q'', JStr ''a b'')],
       headers = Some [''User-Agent'' \<mapsto> ''mine'', ''X-Custom'' \<mapsto> ''1''],
       data = JUndefined, files = None, auth = None, reason = Some ''spam'' \<rparr>"

definition example_request_null_query :: Request where
  "example_request_null_query = example_request\<lparr>query := Some [(''before'', JNull)]\<rparr>"

definition example_request_undefined_query :: Request where
  "example_request_undefined_query = example_request\<lparr>query := Some [(''after'', JUndefined)]\<rparr>"

definition example_webhook_request :: Request where
  "example_webhook_request =
     \<lparr> method' = ''POST'', endpoint = ''/webhooks/7/t'', query = None,
       headers = Some [''Authorization'' \<mapsto> ''mine''],
       data = JObj [(''content'', JStr ''hi'')], files = None, auth = Some False, reason = None \<rparr>"

definition example_upload_request :: Request where
  "example_upload_request =
     \<lparr> method' = ''POST'', endpoint = ''/channels/42/messages'', query = None, headers = None,
       data = JNull, files = Some [\<lparr> name = ''f'', file' = Some ''bytes'' \<rparr>], auth = None,
       reason = None \<rparr>"

definition example_init :: RequestInit where
  "example_init = \<lparr> init_method = ''GET'', init_headers = Map.empty, init_body = None \<rparr>"

definition example_handler :: RequestHandler where
  "example_handler = new_RequestHandler ''UnknownHash(/channels/42/messages)'' ''42''"

definition example_limited_handler :: RequestHandler where
  "example_limited_handler = example_handler\<lparr>remaining := Fin 0, reset := Fin 1500\<rparr>"

definition response_200 :: Response where
  "response_200 =
     \<lparr> status = 200, statusText = ''OK'',
       res_headers = Some (map_of [(''X-RateLimit-Limit'', ''5''), (''X-RateLimit-Remaining'', ''4''),
                        (''X-RateLimit-Reset-After'', ''2''), (''Content-Type'', ''application/json'')]),
       json = Some (JObj [(''id'', JStr ''1'')]), buffer = [] \<rparr>"








definition response_429 :: Response where
  "response_429 =
     \<lparr> status = 429, statusText = ''Too Many Requests'',
       res_headers = Some (map_of [(''Retry-After'', ''1'')]), json = None, buffer = [] \<rparr>"

definition response_429_global :: Response where
  "response_429_global =
     \<lparr> status = 429, statusText = ''Too Many Requests'',
       res_headers = Some (map_of [(''Retry-After'', ''2''), (''Via'', ''1.1 proxy''),
                        (''X-RateLimit-Global'', ''true'')]),
       json = None, buffer = [] \<rparr>"

definition response_503 :: Response where
  "response_503 =
     \<lparr> status = 503, statusText = ''Service Unavailable'', res_headers = Some Map.empty,
       json = None, buffer = [] \<rparr>"

definition response_503_global :: Response where
  "response_503_global =
     \<lparr> status = 503, statusText = ''Service Unavailable'',
       res_headers = Some (map_of [(''X-RateLimit-Global'', ''true''), (''Retry-After'', ''2'')]),
       json = None, buffer = [] \<rparr>"

definition example_manager_with_queues :: RESTManager where
  "example_manager_with_queues =
     example_manager\<lparr>queues := [''a:42'' \<mapsto> example_limited_handler,
                                 ''b:42'' \<mapsto> example_handler\<lparr>asyncQueue := 1\<rparr>,
                                 ''c:42'' \<mapsto> example_handler]\<rparr>"

section \<open>Request assembly: what \<open>resolveRequest\<close> returns\<close>

lemma typeof_undefined: "(typeof v = ''undefined'') = (v = JUndefined)"
  by (cases v) simp_all

lemma stringify_defined: "v \<noteq> JUndefined \<Longrightarrow> \<exists>s. JSON_stringify v = Some s"
  by (cases v) simp_all

lemma resolveRequest_throws:
  assumes "auth request \<noteq> Some False" and "token m = None \<or> token m = Some []"
  shows "resolveRequest pkg boundary m request =
           Inl (Error ''No bot token has been provided, and is required for the action you are trying to do.'')"
proof -
  from assms(1) have "auth request = None \<or> auth request = Some True"
    by (cases "auth request") auto
  with assms(2) show ?thesis
    by (simp add: resolveRequest_def Let_def)
qed

lemma resolveRequest_returns:
  assumes "auth request = Some False \<or> (\<exists>t. token m = Some t \<and> t \<noteq> [])"
  shows "resolveRequest pkg boundary m request =
           Inr (request_url m request,
                \<lparr> init_method = method' request,
                  init_headers = caller_headers request ++ spec_body_headers boundary request
                                   ++ spec_mandatory_headers pkg m request,
                  init_body = request_body boundary request \<rparr>)"
proof -
  have q: "\<And>q. filter (\<lambda>(n, value). value \<noteq> JNull \<and> JStr (typeof value) \<noteq> JUndefined) q
        = filter (\<lambda>(n, v). v \<noteq> JNull) q"
    by simp
  have guard: "\<not> ((auth request = None \<or> auth request = Some True)
            \<and> (token m = None \<or> token m = Some []))"
    using assms by auto
  obtain s where s: "data request \<noteq> JUndefined \<Longrightarrow> JSON_stringify (data request) = Some s"
    using stringify_defined by (cases "data request = JUndefined") auto
  have mand: "spec_mandatory_headers pkg m request =
      (case reason request of
         Some r \<Rightarrow>
           if r \<noteq> []
           then (spec_mandatory_headers pkg m (request\<lparr>reason := None\<rparr>))
                  (''X-Audit-Log-Reason'' \<mapsto> encodeURIComponent r)
           else spec_mandatory_headers pkg m (request\<lparr>reason := None\<rparr>)
       | None \<Rightarrow> spec_mandatory_headers pkg m (request\<lparr>reason := None\<rparr>))"
    by (auto simp: spec_mandatory_headers_def map_add_def fun_eq_iff split: option.splits)
  have mand0: "spec_mandatory_headers pkg m (request\<lparr>reason := None\<rparr>) =
      (if auth request = None \<or> auth request = Some True
       then (case token m of
               Some t \<Rightarrow> [''User-Agent'' \<mapsto> UserAgent pkg @ '' '' @ userAgentAppendix (options m),
                      ''X-RateLimit-Precision'' \<mapsto> ''millisecond''](''Authorization'' \<mapsto> ''Bot '' @ t)
             | None \<Rightarrow> [''User-Agent'' \<mapsto> UserAgent pkg @ '' '' @ userAgentAppendix (options m),
                      ''X-RateLimit-Precision'' \<mapsto> ''millisecond''])
       else [''User-Agent'' \<mapsto> UserAgent pkg @ '' '' @ userAgentAppendix (options m),
                      ''X-RateLimit-Precision'' \<mapsto> ''millisecond''])"
    by (cases "auth request")
      (auto simp: spec_mandatory_headers_def map_add_def fun_eq_iff split: option.splits)
  show ?thesis
    unfolding resolveRequest_def Let_def q
    apply (simp only: guard if_False mand0[symmetric] mand[symmetric])
    apply (cases "files request \<noteq> None \<and> files request \<noteq> Some []")
    subgoal
      apply (cases "data request = JUndefined")
       apply (auto simp: request_url_def request_body_def spec_body_headers_def
          caller_headers_def typeof_undefined s)
      done
    subgoal
      apply (cases "data request = JUndefined \<or> data request = JNull")
       apply (auto simp: request_url_def request_body_def spec_body_headers_def
          caller_headers_def typeof_undefined s)
      done
    done
qed

lemma resolveRequest_Inr:
  assumes "resolveRequest pkg boundary m request = Inr (url, init)"
  shows "url = request_url m request"
    and "init_method init = method' request"
    and "init_headers init = caller_headers request ++ spec_body_headers boundary request
                                   ++ spec_mandatory_headers pkg m request"
    and "init_body init = request_body boundary request"
    and "auth request = Some False \<or> (\<exists>t. token m = Some t \<and> t \<noteq> [])"
proof -
  show g: "auth request = Some False \<or> (\<exists>t. token m = Some t \<and> t \<noteq> [])"
  proof (rule ccontr)
    assume "\<not> ?thesis"
    then have "auth request \<noteq> Some False" and "token m = None \<or> token m = Some []"
      by (cases "token m"; auto)+
    from resolveRequest_throws[OF this] assms show False by simp
  qed
  from resolveRequest_returns[OF g, of pkg boundary] assms
  have e: "(url, init) = (request_url m request,
                \<lparr> init_method = method' request,
                  init_headers = caller_headers request ++ spec_body_headers boundary request
                                   ++ spec_mandatory_headers pkg m request,
                  init_body = request_body boundary request \<rparr>)"
    by simp
  from e show "url = request_url m request" by simp
  from e show "init_method init = method' request" by simp
  from e show "init_headers init = caller_headers request ++ spec_body_headers boundary request
                                   ++ spec_mandatory_headers pkg m request" by simp
  from e show "init_body init = request_body boundary request" by simp
qed

lemma example_manager_token:
  "auth example_request = Some False \<or> (\<exists>t. token example_manager = Some t \<and> t \<noteq> [])"
  by (simp add: example_manager_def new_RESTManager_def)

subsection \<open>The URL and its query string\<close>

text \<open>
  Claim C1, as the code has it. For every request with a query sequence none of whose
  values is \<open>undefined\<close>, the assembled URL is \<open>{api}/v{version}{endpoint}\<close>, then \<open>?\<close>,
  then the form-urlencoding of exactly the pairs whose value is neither \<open>null\<close> nor
  \<open>undefined\<close>. The \<open>?\<close> is appended whenever a query sequence is given, also when no
  pair is left.
\<close>

theorem resolveRequest_query_url:
  assumes "resolveRequest pkg boundary m request = Inr (url, init)"
    and "query request = Some q"
    and "list_all (\<lambda>(n, v). v \<noteq> JUndefined) q"
  shows "url = api (options m) @ ''/v'' @ Number_toString (version (options m)) @ endpoint request
               @ ''?'' @ URLSearchParams (filter (\<lambda>(n, v). v \<noteq> JNull \<and> v \<noteq> JUndefined) q)"
proof -
  have "filter (\<lambda>(n, v). v \<noteq> JNull) q = filter (\<lambda>(n, v). v \<noteq> JNull \<and> v \<noteq> JUndefined) q"
    using assms(3) by (induction q) auto
  with resolveRequest_Inr(1)[OF assms(1)] assms(2) show ?thesis
    by (simp add: request_url_def)
qed

text \<open>
  The theorem at a request with the query \<open>limit=10\<close>, \<open>before=null\<close>, \<open>q="a b"\<close>.
\<close>

theorem resolveRequest_query_url_witness:
  "map_sum id fst (resolveRequest example_package ''b'' example_manager example_request)
     = Inr ''https://discord.com/api/v7/channels/42/messages?limit=10&q=a+b''"
proof -
  from resolveRequest_returns[OF example_manager_token, of example_package "''b''"]
  obtain url init where
    r: "resolveRequest example_package ''b'' example_manager example_request = Inr (url, init)"
    by blast
  have q: "query example_request = Some [(''limit'', JNum 10), (''before'', JNull), (''q'', JStr ''a b'')]"
    by (simp add: example_request_def)
  have d: "list_all (\<lambda>(n, v). v \<noteq> JUndefined)
             [(''limit'', JNum 10), (''before'', JNull), (''q'', JStr ''a b'')]"
    by simp
  have "url = api (options example_manager) @ ''/v'' @ Number_toString (version (options example_manager))
                @ endpoint example_request @ ''?''
                @ URLSearchParams (filter (\<lambda>(n, v). v \<noteq> JNull \<and> v \<noteq> JUndefined)
                     [(''limit'', JNum 10), (''before'', JNull), (''q'', JStr ''a b'')])"
    by (rule resolveRequest_query_url[OF r q d])
  also have "\<dots> = ''https://discord.com/api/v7/channels/42/messages?limit=10&q=a+b''"
    by code_simp
  finally show ?thesis using r by simp
qed

text \<open>
  Against C1 as stated: with the query \<open>before=null\<close> no pair is left after the filter,
  and the URL still ends in \<open>?\<close>.
\<close>

theorem resolveRequest_empty_query_counterexample:
  "query example_request_null_query = Some [(''before'', JNull)]
   \<and> map_sum id fst (resolveRequest example_package ''b'' example_manager example_request_null_query)
       = Inr ''https://discord.com/api/v7/channels/42/messages?''"
  by code_simp

text \<open>
  The other half of the filter: a pair whose value is \<open>undefined\<close> is not dropped, it
  is sent as the text \<open>undefined\<close>.
\<close>

lemma resolveRequest_undefined_query_value:
  "map_sum id fst (resolveRequest example_package ''b'' example_manager example_request_undefined_query)
     = Inr ''https://discord.com/api/v7/channels/42/messages?after=undefined''"
  by code_simp

subsection \<open>The order of the headers\<close>

text \<open>
  Claim C8. The headers of every assembled request are the caller's headers, then the
  body-type headers, then the mandatory headers, a later entry winning where names
  collide: \<open>User-Agent\<close> and \<open>X-RateLimit-Precision\<close> are always among the mandatory
  ones, and every mandatory header is in the result with its mandatory value, whatever
  the caller or the body type supplied under that name.
\<close>

theorem resolveRequest_header_merge:
  assumes "resolveRequest pkg boundary m request = Inr (url, init)"
  shows "init_headers init =
           caller_headers request ++ spec_body_headers boundary request
             ++ spec_mandatory_headers pkg m request
         \<and> spec_mandatory_headers pkg m request ''User-Agent''
             = Some (UserAgent pkg @ '' '' @ userAgentAppendix (options m))
         \<and> spec_mandatory_headers pkg m request ''X-RateLimit-Precision'' = Some ''millisecond''
         \<and> (\<forall>k v. spec_mandatory_headers pkg m request k = Some v \<longrightarrow> init_headers init k = Some v)"
proof -
  note h = resolveRequest_Inr(3)[OF assms]
  have "spec_mandatory_headers pkg m request ''User-Agent''
             = Some (UserAgent pkg @ '' '' @ userAgentAppendix (options m))"
    by (simp add: spec_mandatory_headers_def map_add_def split: option.splits)
  moreover have "spec_mandatory_headers pkg m request ''X-RateLimit-Precision'' = Some ''millisecond''"
    by (simp add: spec_mandatory_headers_def map_add_def split: option.splits)
  moreover have "\<forall>k v. spec_mandatory_headers pkg m request k = Some v \<longrightarrow> init_headers init k = Some v"
    by (simp add: h map_add_def)
  ultimately show ?thesis using h by blast
qed

text \<open>
  The theorem at a request whose caller sets \<open>User-Agent\<close> and \<open>X-Custom\<close>: the first is
  overridden, the second is kept.
\<close>

theorem resolveRequest_header_merge_witness:
  "\<exists>url init.
     resolveRequest example_package ''b'' example_manager example_request = Inr (url, init)
     \<and> init_headers init ''User-Agent''
         = Some ''DiscordBot (https://github.com/dirigeants/rest, 0.5.0) Node.js/v12.18.0''
     \<and> init_headers init ''X-RateLimit-Precision'' = Some ''millisecond''
     \<and> init_headers init ''Authorization'' = Some ''Bot secret''
     \<and> init_headers init ''X-Custom'' = Some ''1''"
proof -
  from resolveRequest_returns[OF example_manager_token, of example_package "''b''"]
  obtain url init where
    r: "resolveRequest example_package ''b'' example_manager example_request = Inr (url, init)"
    by blast
  note t = resolveRequest_header_merge[OF r]
  have ua: "UserAgent example_package @ '' '' @ userAgentAppendix (options example_manager)
              = ''DiscordBot (https://github.com/dirigeants/rest, 0.5.0) Node.js/v12.18.0''"
    by code_simp
  have au: "spec_mandatory_headers example_package example_manager example_request ''Authorization''
              = Some ''Bot secret''"
    by code_simp
  have cu: "(caller_headers example_request ++ spec_body_headers ''b'' example_request
               ++ spec_mandatory_headers example_package example_manager example_request) ''X-Custom''
              = Some ''1''"
    by code_simp
  from t ua have "init_headers init ''User-Agent''
         = Some ''DiscordBot (https://github.com/dirigeants/rest, 0.5.0) Node.js/v12.18.0''"
    by simp
  moreover from t have "init_headers init ''X-RateLimit-Precision'' = Some ''millisecond''"
    by simp
  moreover from t au have "init_headers init ''Authorization'' = Some ''Bot secret''"
    by blast
  moreover from t cu have "init_headers init ''X-Custom'' = Some ''1''"
    by simp
  ultimately show ?thesis using r by blast
qed

subsection \<open>Authorization\<close>

lemma body_headers_Authorization: "spec_body_headers boundary request ''Authorization'' = None"
  by (simp add: spec_body_headers_def)

lemma mandatory_Authorization:
  "spec_mandatory_headers pkg m request ''Authorization'' =
     (if auth request = Some False then None else map_option (\<lambda>t. ''Bot '' @ t) (token m))"
  by (simp add: spec_mandatory_headers_def map_add_def split: option.splits)

lemma mandatory_Content_Type: "spec_mandatory_headers pkg m request ''Content-Type'' = None"
  by (simp add: spec_mandatory_headers_def map_add_def split: option.splits)

lemma createQueue_token: "token (snd (createQueue m hash_arg major)) = token m"
  by (simp add: createQueue_def Let_def)

lemma createQueue_queues:
  "queues (snd (createQueue m hash_arg major)) k = Some q \<Longrightarrow> queues m k = Some q \<or> asyncQueue q = 0"
  by (auto simp: createQueue_def Let_def new_RequestHandler_def split: if_splits)

lemma queueRequest_throws:
  assumes "auth request \<noteq> Some False" and "token m = None \<or> token m = Some []"
  shows "\<exists>m'. queueRequest pkg boundary routeID request script (m, h) =
           (Some (Inl (Error ''No bot token has been provided, and is required for the action you are trying to do.'')), m', h)
         \<and> (\<forall>k q. queues m' k = Some q \<longrightarrow> queues m k = Some q \<or> asyncQueue q = 0)"
proof -
  define hash_arg where "hash_arg = (if truthy (hashes m (method' request @ ''-'' @ route routeID))
       then the (hashes m (method' request @ ''-'' @ route routeID))
       else ''UnknownHash('' @ route routeID @ '')'')"
  have eq: "queueRequest pkg boundary routeID request script (m, h) =
      (case (case queues m (hash_arg @ '':'' @ majorParameter routeID) of
               Some q \<Rightarrow> (q, m)
             | None \<Rightarrow> createQueue m hash_arg (majorParameter routeID)) of
         (queue, m1) \<Rightarrow>
           (case resolveRequest pkg boundary m1 request of
              Inl e \<Rightarrow> (Some (Inl e), m1, h)
            | Inr (url, opts) \<Rightarrow>
                (case push routeID url opts script (m1, queue, h) of
                   (r, m2, queue', h') \<Rightarrow>
                     (r, m2\<lparr>queues := (queues m2)(id' queue' \<mapsto> queue')\<rparr>, h'))))"
    by (simp only: queueRequest_def Let_def hash_arg_def prod.case)
  show ?thesis
  proof (cases "queues m (hash_arg @ '':'' @ majorParameter routeID)")
    case None
    obtain queue m1 where c: "createQueue m hash_arg (majorParameter routeID) = (queue, m1)"
      by (cases "createQueue m hash_arg (majorParameter routeID)")
    with assms(2) createQueue_token[of m hash_arg "majorParameter routeID"]
    have t1: "token m1 = None \<or> token m1 = Some []" by simp
    from c createQueue_queues[of m hash_arg "majorParameter routeID"]
    have "\<forall>k q. queues m1 k = Some q \<longrightarrow> queues m k = Some q \<or> asyncQueue q = 0" by simp
    then show ?thesis
      unfolding eq
      using None c resolveRequest_throws[OF assms(1) t1, of pkg boundary]
      by simp
  next
    case (Some q)
    then show ?thesis
      unfolding eq
      using resolveRequest_throws[OF assms, of pkg boundary]
      by simp
  qed
qed

text \<open>
  Claim C9. When \<open>auth\<close> is true or unset and a (non-empty) token is set, the assembled
  request carries \<open>Authorization: Bot <token>\<close>. When \<open>auth\<close> is true or unset and no
  token is set, assembly throws the configuration error, and so does \<open>queueRequest\<close>,
  at once: the host is untouched (no \<open>fetch\<close>, no event, no time passes) and no request
  has entered a handler's queue (a handler created for the bucket on the way is
  empty). When \<open>auth\<close> is false, assembly succeeds with or without a token and adds no
  \<open>Authorization\<close> header of its own: the entry is the caller's, if any.
\<close>

theorem resolveRequest_authorization:
  "(auth request \<noteq> Some False \<and> token m = Some t \<and> t \<noteq> [] \<longrightarrow>
      (\<exists>url init. resolveRequest pkg boundary m request = Inr (url, init)
         \<and> init_headers init ''Authorization'' = Some (''Bot '' @ t)))
   \<and> (auth request \<noteq> Some False \<and> token m = None \<longrightarrow>
      resolveRequest pkg boundary m request
        = Inl (Error ''No bot token has been provided, and is required for the action you are trying to do.'')
      \<and> (\<exists>m'. queueRequest pkg boundary routeID request script (m, h)
             = (Some (Inl (Error ''No bot token has been provided, and is required for the action you are trying to do.'')), m', h)
           \<and> (\<forall>k q. queues m' k = Some q \<longrightarrow> queues m k = Some q \<or> asyncQueue q = 0)))
   \<and> (auth request = Some False \<longrightarrow>
      (\<exists>url init. resolveRequest pkg boundary m request = Inr (url, init)
         \<and> init_headers init ''Authorization'' = caller_headers request ''Authorization''))"
proof (intro conjI impI)
  assume a: "auth request \<noteq> Some False \<and> token m = Some t \<and> t \<noteq> []"
  then have g: "auth request = Some False \<or> (\<exists>t. token m = Some t \<and> t \<noteq> [])" by simp
  show "\<exists>url init. resolveRequest pkg boundary m request = Inr (url, init)
         \<and> init_headers init ''Authorization'' = Some (''Bot '' @ t)"
    using a by (simp add: resolveRequest_returns[OF g] map_add_def mandatory_Authorization)
next
  assume a: "auth request \<noteq> Some False \<and> token m = None"
  then show "resolveRequest pkg boundary m request
        = Inl (Error ''No bot token has been provided, and is required for the action you are trying to do.'')"
    by (simp add: resolveRequest_throws)
  from a show "\<exists>m'. queueRequest pkg boundary routeID request script (m, h)
             = (Some (Inl (Error ''No bot token has been provided, and is required for the action you are trying to do.'')), m', h)
           \<and> (\<forall>k q. queues m' k = Some q \<longrightarrow> queues m k = Some q \<or> asyncQueue q = 0)"
    by (simp add: queueRequest_throws)
next
  assume a: "auth request = Some False"
  then have g: "auth request = Some False \<or> (\<exists>t. token m = Some t \<and> t \<noteq> [])" by simp
  show "\<exists>url init. resolveRequest pkg boundary m request = Inr (url, init)
         \<and> init_headers init ''Authorization'' = caller_headers request ''Authorization''"
    using a
    by (simp add: resolveRequest_returns[OF g] map_add_def mandatory_Authorization
        body_headers_Authorization)
qed

text \<open>
  The theorem at three inputs: a request with a token, the same request with no
  token, and a webhook request (\<open>auth\<close> false) with no token.
\<close>

theorem resolveRequest_authorization_witness:
  "(\<exists>url init.
      resolveRequest example_package ''b'' example_manager example_request = Inr (url, init)
      \<and> init_headers init ''Authorization'' = Some ''Bot secret'')
   \<and> resolveRequest example_package ''b'' example_manager_no_token example_request
       = Inl (Error ''No bot token has been provided, and is required for the action you are trying to do.'')
   \<and> (\<exists>m'. queueRequest example_package ''b'' example_route example_request
              [(Resolved response_200, 50)] (example_manager_no_token, example_host)
            = (Some (Inl (Error ''No bot token has been provided, and is required for the action you are trying to do.'')),
               m', example_host))
   \<and> (\<exists>url init.
      resolveRequest example_package ''b'' example_manager_no_token example_webhook_request
        = Inr (url, init)
      \<and> init_headers init ''Authorization'' = Some ''mine'')"
proof -
  have 1: "auth example_request \<noteq> Some False \<and> token example_manager = Some ''secret''
             \<and> ''secret'' \<noteq> []"
    by (simp add: example_request_def example_manager_def new_RESTManager_def)
  have 2: "auth example_request \<noteq> Some False \<and> token example_manager_no_token = None"
    by (simp add: example_request_def example_manager_no_token_def new_RESTManager_def)
  have 3: "auth example_webhook_request = Some False"
    by (simp add: example_webhook_request_def)
  have 4: "caller_headers example_webhook_request ''Authorization'' = Some ''mine''"
    by (simp add: example_webhook_request_def caller_headers_def)
  from 1 resolveRequest_authorization[where request = example_request and m = example_manager
      and t = "''secret''" and pkg = example_package and boundary = "''b''"]
  have "\<exists>url init.
      resolveRequest example_package ''b'' example_manager example_request = Inr (url, init)
      \<and> init_headers init ''Authorization'' = Some ''Bot secret''"
    by simp
  moreover from 2 resolveRequest_authorization[where request = example_request
      and m = example_manager_no_token and pkg = example_package and boundary = "''b''"
      and routeID = example_route and script = "[(Resolved response_200, 50)]"
      and h = example_host]
  have "resolveRequest example_package ''b'' example_manager_no_token example_request
       = Inl (Error ''No bot token has been provided, and is required for the action you are trying to do.'')
   \<and> (\<exists>m'. queueRequest example_package ''b'' example_route example_request
              [(Resolved response_200, 50)] (example_manager_no_token, example_host)
            = (Some (Inl (Error ''No bot token has been provided, and is required for the action you are trying to do.'')),
               m', example_host))"
    by blast
  moreover from 3 4 resolveRequest_authorization[where request = example_webhook_request
      and m = example_manager_no_token and pkg = example_package and boundary = "''b''"]
  have "\<exists>url init.
      resolveRequest example_package ''b'' example_manager_no_token example_webhook_request
        = Inr (url, init)
      \<and> init_headers init ''Authorization'' = Some ''mine''"
    by simp
  ultimately show ?thesis by blast
qed

subsection \<open>The body\<close>

text \<open>
  Claim C10. When \<open>files\<close> is non-empty the body is multipart, and a \<open>payload_json\<close>
  field (a field with no file name) is among its parts exactly when \<open>data\<close> is not
  \<open>undefined\<close>; its content is the JSON text of \<open>data\<close>, so \<open>data = null\<close> gives the
  field \<open>null\<close>. When \<open>files\<close> is empty or absent, a JSON body together with
  \<open>Content-Type: application/json\<close> is produced when \<open>data\<close> is neither \<open>null\<close> nor
  \<open>undefined\<close>, and otherwise there is no body and the \<open>Content-Type\<close> entry is left as
  the caller had it.
\<close>

theorem resolveRequest_body_branches:
  assumes "resolveRequest pkg boundary m request = Inr (url, init)"
  shows "(files request = Some fs \<and> fs \<noteq> [] \<longrightarrow>
            (\<exists>parts. init_body init = Some (FormData boundary parts)
               \<and> ((\<exists>s. Part ''payload_json'' s None \<in> set parts) \<longleftrightarrow> data request \<noteq> JUndefined)
               \<and> (\<forall>s. Part ''payload_json'' s None \<in> set parts \<longrightarrow> JSON_stringify (data request) = Some s)
               \<and> (data request = JNull \<longrightarrow> Part ''payload_json'' ''null'' None \<in> set parts)))
       \<and> (files request = None \<or> files request = Some [] \<longrightarrow>
            (data request \<noteq> JNull \<and> data request \<noteq> JUndefined \<longrightarrow>
               (\<exists>s. JSON_stringify (data request) = Some s \<and> init_body init = Some (Text s))
               \<and> init_headers init ''Content-Type'' = Some ''application/json'')
            \<and> (data request = JNull \<or> data request = JUndefined \<longrightarrow>
               init_body init = None
               \<and> init_headers init ''Content-Type'' = caller_headers request ''Content-Type''))"
proof -
  note b = resolveRequest_Inr(4)[OF assms]
  note hh = resolveRequest_Inr(3)[OF assms]
  have ct: "init_headers init ''Content-Type'' =
      (case spec_body_headers boundary request ''Content-Type'' of
         Some v \<Rightarrow> Some v
       | None \<Rightarrow> caller_headers request ''Content-Type'')"
    by (simp add: hh map_add_def mandatory_Content_Type)
  have files_parts: "\<And>s fs. Part ''payload_json'' s None \<notin> set (concat (map (\<lambda>f. case file' f of
                                 Some content \<Rightarrow> [Part (name f) content (Some (name f))]
                               | None \<Rightarrow> []) fs))"
    by (auto split: option.splits)
  show ?thesis
  proof (intro conjI impI)
    assume f: "files request = Some fs \<and> fs \<noteq> []"
    show "\<exists>parts. init_body init = Some (FormData boundary parts)
               \<and> ((\<exists>s. Part ''payload_json'' s None \<in> set parts) \<longleftrightarrow> data request \<noteq> JUndefined)
               \<and> (\<forall>s. Part ''payload_json'' s None \<in> set parts \<longrightarrow> JSON_stringify (data request) = Some s)
               \<and> (data request = JNull \<longrightarrow> Part ''payload_json'' ''null'' None \<in> set parts)"
    proof (cases "data request = JUndefined")
      case True
      with f b files_parts show ?thesis by (simp add: request_body_def)
    next
      case False
      then obtain s where "JSON_stringify (data request) = Some s" using stringify_defined by blast
      with False f b files_parts show ?thesis by (auto simp add: request_body_def)
    qed
  next
    assume f: "files request = None \<or> files request = Some []"
    assume d: "data request \<noteq> JNull \<and> data request \<noteq> JUndefined"
    then obtain s where "JSON_stringify (data request) = Some s" using stringify_defined by blast
    with f d b show "\<exists>s. JSON_stringify (data request) = Some s \<and> init_body init = Some (Text s)"
      by (auto simp: request_body_def)
    from f d show "init_headers init ''Content-Type'' = Some ''application/json''"
      by (auto simp: ct spec_body_headers_def)
  next
    assume f: "files request = None \<or> files request = Some []"
    assume d: "data request = JNull \<or> data request = JUndefined"
    with f b show "init_body init = None" by (auto simp: request_body_def)
    from f d show "init_headers init ''Content-Type'' = caller_headers request ''Content-Type''"
      by (auto simp: ct spec_body_headers_def)
  qed
qed

text \<open>
  The theorem at an upload with \<open>data = null\<close>, at a webhook request with JSON data
  and no files, and at a request with neither.
\<close>

theorem resolveRequest_body_branches_witness:
  "(\<exists>url init parts.
      resolveRequest example_package ''b'' example_manager example_upload_request = Inr (url, init)
      \<and> init_body init = Some (FormData ''b'' parts)
      \<and> Part ''payload_json'' ''null'' None \<in> set parts)
   \<and> (\<exists>url init s.
      resolveRequest example_package ''b'' example_manager example_webhook_request = Inr (url, init)
      \<and> JSON_stringify (JObj [(''content'', JStr ''hi'')]) = Some s
      \<and> init_body init = Some (Text s)
      \<and> init_headers init ''Content-Type'' = Some ''application/json'')
   \<and> (\<exists>url init.
      resolveRequest example_package ''b'' example_manager example_request = Inr (url, init)
      \<and> init_body init = None \<and> init_headers init ''Content-Type'' = None)"
proof -
  have g1: "auth example_upload_request = Some False
              \<or> (\<exists>t. token example_manager = Some t \<and> t \<noteq> [])"
    by (simp add: example_manager_def new_RESTManager_def)
  have g2: "auth example_webhook_request = Some False
              \<or> (\<exists>t. token example_manager = Some t \<and> t \<noteq> [])"
    by (simp add: example_manager_def new_RESTManager_def)
  from resolveRequest_returns[OF g1, of example_package "''b''"]
  obtain url1 init1 where
    r1: "resolveRequest example_package ''b'' example_manager example_upload_request = Inr (url1, init1)"
    by blast
  from resolveRequest_returns[OF g2, of example_package "''b''"]
  obtain url2 init2 where
    r2: "resolveRequest example_package ''b'' example_manager example_webhook_request = Inr (url2, init2)"
    by blast
  from resolveRequest_returns[OF example_manager_token, of example_package "''b''"]
  obtain url3 init3 where
    r3: "resolveRequest example_package ''b'' example_manager example_request = Inr (url3, init3)"
    by blast
  have f1: "files example_upload_request = Some [\<lparr> name = ''f'', file' = Some ''bytes'' \<rparr>]
              \<and> [\<lparr> name = ''f'', file' = Some ''bytes'' \<rparr>] \<noteq> []"
       "data example_upload_request = JNull"
    by (simp_all add: example_upload_request_def)
  have f2: "files example_webhook_request = None \<or> files example_webhook_request = Some []"
       "data example_webhook_request = JObj [(''content'', JStr ''hi'')]"
    by (simp_all add: example_webhook_request_def)
  have f3: "files example_request = None \<or> files example_request = Some []"
       "data example_request = JUndefined" "caller_headers example_request ''Content-Type'' = None"
    by (simp_all add: example_request_def caller_headers_def)
  from f1 resolveRequest_body_branches[OF r1, of "[\<lparr> name = ''f'', file' = Some ''bytes'' \<rparr>]"]
  have "\<exists>parts. init_body init1 = Some (FormData ''b'' parts)
          \<and> Part ''payload_json'' ''null'' None \<in> set parts"
    by auto
  moreover from f2 resolveRequest_body_branches[OF r2]
  have "\<exists>s. JSON_stringify (JObj [(''content'', JStr ''hi'')]) = Some s
          \<and> init_body init2 = Some (Text s)
          \<and> init_headers init2 ''Content-Type'' = Some ''application/json''"
    by auto
  moreover from f3 resolveRequest_body_branches[OF r3]
  have "init_body init3 = None \<and> init_headers init3 ''Content-Type'' = None"
    by auto
  ultimately show ?thesis using r1 r2 r3 by blast
qed

section \<open>The sweeper\<close>

text \<open>
  Claim C5. The sweeper removes a handler from the \<open>queues\<close> table only when the
  handler is inactive; inactive means that its queue is empty and it is not limited,
  and limited means \<open>remaining <= 0\<close> and \<open>now < reset\<close>. So a handler whose queue is
  non-empty, or that is limited, stays in the table as it is.
\<close>

theorem sweeper_keeps_active_handlers:
  assumes "queues m k = Some handler"
  shows "(queues (sweeper t m) k = None \<longrightarrow> inactive t handler)
       \<and> (inactive t handler \<longleftrightarrow> asyncQueue handler = 0 \<and> \<not> limited t handler)
       \<and> (limited t handler \<longleftrightarrow>
            js_le (remaining handler) (Fin 0) \<and> js_lt (Fin (of_int t)) (reset handler))
       \<and> (asyncQueue handler \<noteq> 0 \<or> limited t handler \<longrightarrow> queues (sweeper t m) k = Some handler)"
  using assms by (auto simp: sweeper_def sweep_def inactive_def limited_def)

text \<open>
  The theorem at a table of three handlers: a limited one, one with a request in its
  queue, and an idle one. Only the idle one is dropped.
\<close>

theorem sweeper_keeps_active_handlers_witness:
  "queues (sweeper 1000 example_manager_with_queues) ''a:42'' = Some example_limited_handler
   \<and> queues (sweeper 1000 example_manager_with_queues) ''b:42''
       = Some (example_handler\<lparr>asyncQueue := 1\<rparr>)
   \<and> queues (sweeper 1000 example_manager_with_queues) ''c:42'' = None
   \<and> inactive 1000 example_handler"
proof -
  have a: "queues example_manager_with_queues ''a:42'' = Some example_limited_handler"
    and b: "queues example_manager_with_queues ''b:42'' = Some (example_handler\<lparr>asyncQueue := 1\<rparr>)"
    and c: "queues example_manager_with_queues ''c:42'' = Some example_handler"
    by (simp_all add: example_manager_with_queues_def)
  have la: "limited 1000 example_limited_handler"
    by code_simp
  have qb: "asyncQueue (example_handler\<lparr>asyncQueue := 1\<rparr>) \<noteq> 0"
    by simp
  have nc: "queues (sweeper 1000 example_manager_with_queues) ''c:42'' = None"
    by code_simp
  from sweeper_keeps_active_handlers[OF a, of 1000] la
  have "queues (sweeper 1000 example_manager_with_queues) ''a:42'' = Some example_limited_handler"
    by blast
  moreover from sweeper_keeps_active_handlers[OF b, of 1000] qb
  have "queues (sweeper 1000 example_manager_with_queues) ''b:42''
       = Some (example_handler\<lparr>asyncQueue := 1\<rparr>)"
    by blast
  moreover from sweeper_keeps_active_handlers[OF c, of 1000] nc
  have "inactive 1000 example_handler"
    by blast
  ultimately show ?thesis using nc by blast
qed

section \<open>The handler\<close>

subsection \<open>What the steps leave unchanged\<close>

lemma fetch_retries_append: "fetch_retries (xs @ ys) = fetch_retries xs @ fetch_retries ys"
  by (induction xs rule: fetch_retries.induct) simp_all

lemma js_add_commute: "js_add a b = js_add b a"
  by (cases a; cases b) (simp_all add: add.commute)

lemma fire_frame:
  "fire t (m, h) = (m', h') \<Longrightarrow>
     options m' = options m \<and> events h' = events h \<and> others h' = others h"
  by (auto simp: fire_def split: if_splits)

lemma setGlobalTimeout_frame:
  "setGlobalTimeout t ra (m, h) = (m', h') \<Longrightarrow>
     options m' = options m \<and> events h' = events h \<and> now h' = now h"
  by (auto simp: setGlobalTimeout_def)

lemma advance_frame:
  "advance T os (m, h) = (m', h') \<Longrightarrow>
     options m' = options m \<and> events h' = events h \<and> now h' = T"
proof (induction os arbitrary: m h)
  case Nil
  obtain m1 h1 where f: "fire T (m, h) = (m1, h1)" by (cases "fire T (m, h)")
  with Nil fire_frame[OF f] show ?case by auto
next
  case (Cons o1 os)
  obtain t ra where o1: "o1 = (t, ra)" by (cases o1)
  show ?case
  proof (cases "t \<le> T")
    case True
    obtain m1 h1 where f: "fire t (m, h) = (m1, h1)" by (cases "fire t (m, h)")
    obtain m2 h2 where g: "setGlobalTimeout t ra (m1, h1) = (m2, h2)"
      by (cases "setGlobalTimeout t ra (m1, h1)")
    from Cons.prems o1 True f g have "advance T os (m2, h2) = (m', h')" by simp
    from Cons.IH[OF this] fire_frame[OF f] setGlobalTimeout_frame[OF g] show ?thesis by simp
  next
    case False
    obtain m1 h1 where f: "fire T (m, h) = (m1, h1)" by (cases "fire T (m, h)")
    with Cons.prems o1 False fire_frame[OF f] show ?thesis by auto
  qed
qed

lemma suspend_frame:
  "suspend T (m, h) = (m', h') \<Longrightarrow>
     options m' = options m \<and> events h' = events h \<and> now h' = T"
  unfolding suspend_def by (rule advance_frame)

lemma updateHash_frame:
  "updateHash routeID opts get handler (m, h) = (m', h') \<Longrightarrow>
     options m' = options m \<and> sent h' = sent h \<and> now h' = now h
     \<and> globalTimeout m' = globalTimeout m"
  by (auto simp: updateHash_def Let_def emit_def sent_def fetch_retries_append split: if_splits)

lemma applyHeaders_frame:
  assumes "applyHeaders routeID opts res (m, handler, h) = (ra, m', handler', h')"
  shows "options m' = options m \<and> sent h' = sent h \<and> now h' = now h"
proof (cases "res_headers res")
  case None
  with assms show ?thesis by (simp add: applyHeaders_def)
next
  case (Some get)
  obtain m1 h1 where u: "updateHash routeID opts get handler (m, h) = (m1, h1)"
    by (cases "updateHash routeID opts get handler (m, h)")
  note 1 = updateHash_frame[OF u]
  have "(m', h') = (if truthy (get ''X-RateLimit-Global'')
                    then setGlobalTimeout (now h1) (retryAfter_of (options m) get) (m1, h1)
                    else (m1, h1))"
    using assms Some u by (auto simp: applyHeaders_def Let_def split: prod.splits if_splits)
  then have "options m' = options m1 \<and> events h' = events h1 \<and> now h' = now h1"
    by (cases "truthy (get ''X-RateLimit-Global'')") (auto simp: setGlobalTimeout_def)
  with 1 show ?thesis by (simp add: sent_def)
qed

lemma applyHeaders_retryAfter:
  "res_headers res = Some get \<Longrightarrow>
     fst (applyHeaders routeID opts res (m, handler, h)) = retryAfter_of (options m) get"
  by (simp add: applyHeaders_def Let_def split: prod.splits)

lemma applyHeaders_handler:
  "res_headers res = Some get \<Longrightarrow>
     fst (snd (snd (applyHeaders routeID opts res (m, handler, h))))
       = updateLimits (now h) (options m) get handler"
  by (simp add: applyHeaders_def Let_def split: prod.splits)

lemma attempt_frame:
  assumes "attempt routeID url opts r oc (m, handler, h) = (v, m', handler', h')"
  shows "options m' = options m \<and> sent h' = sent h @ [r]"
proof -
  obtain out elapsed where oc: "oc = (out, elapsed)" by (cases oc)
  define h0 where "h0 = emit (Fetch url r (globalTimeout m)) h"
  obtain m1 h1 where s1: "suspend (now h0 + elapsed) (m, h0) = (m1, h1)"
    by (cases "suspend (now h0 + elapsed) (m, h0)")
  note f1 = suspend_frame[OF s1]
  have h0: "sent h0 = sent h @ [r]"
    by (simp add: h0_def emit_def sent_def fetch_retries_append)
  with f1 have 1: "options m1 = options m \<and> sent h1 = sent h @ [r]" by (simp add: sent_def)
  show ?thesis
  proof (cases out)
    case (Rejected nm)
    with assms oc s1 1 show ?thesis
      by (auto simp: attempt_def Let_def h0_def[symmetric] split: if_splits)
  next
    case (Resolved res)
    obtain ra m2 handler2 h2 where
      a: "applyHeaders routeID opts res (m1, handler, h1) = (ra, m2, handler2, h2)"
      by (cases "applyHeaders routeID opts res (m1, handler, h1)")
    note f2 = applyHeaders_frame[OF a]
    obtain m3 h3 where
      s3: "suspend (now h2 + sleep_ms ra) (m2, emit (Debug429 (route routeID) ra) h2) = (m3, h3)"
      by (cases "suspend (now h2 + sleep_ms ra) (m2, emit (Debug429 (route routeID) ra) h2)")
    note f3 = suspend_frame[OF s3]
    have 3: "options m3 = options m \<and> sent h3 = sent h @ [r]"
      using f3 f2 1 by (simp add: sent_def emit_def fetch_retries_append)
    from assms oc s1 Resolved a s3 1 f2 3 show ?thesis
      by (auto simp: attempt_def Let_def h0_def[symmetric] split: if_splits sum.splits)
  qed
qed

text \<open>How one pass ends, as a function of the outcome alone.\<close>

lemma attempt_verdict:
  "fst (attempt routeID url opts r (out, elapsed) (m, handler, h)) =
     (case out of
        Rejected error_name \<Rightarrow>
          if error_name = ''AbortError'' \<and> r \<noteq> retries (options m)
          then Again (r + 1) else Return (Inl (FetchRejected error_name))
      | Resolved res \<Rightarrow>
          if ok res then Return (parseResponse res)
          else if status res = 429 then Again r
          else if 500 \<le> status res \<and> status res < 600 then
            (if r \<noteq> retries (options m) then Again (r + 1)
             else Return (Inl (HTTPError (statusText res) ''Response'' (status res)
                                 (init_method opts) url)))
          else if 400 \<le> status res \<and> status res < 500 then
            (case parseResponse res of
               Inl e \<Rightarrow> Return (Inl e)
             | Inr data_arg \<Rightarrow>
                 (case property data_arg ''message'' of
                    Inl e \<Rightarrow> Return (Inl e)
                  | Inr message \<Rightarrow>
                      (case property data_arg ''code'' of
                         Inl e \<Rightarrow> Return (Inl e)
                       | Inr code \<Rightarrow>
                           Return (Inl (DiscordAPIError message code (status res)
                                          (init_method opts) url)))))
          else Return (Inr (Json JNull)))"
proof -
  define h0 where "h0 = emit (Fetch url r (globalTimeout m)) h"
  obtain m1 h1 where s1: "suspend (now h0 + elapsed) (m, h0) = (m1, h1)"
    by (cases "suspend (now h0 + elapsed) (m, h0)")
  note f1 = suspend_frame[OF s1]
  show ?thesis
  proof (cases out)
    case (Rejected nm)
    with s1 f1 show ?thesis
      by (simp add: attempt_def Let_def h0_def[symmetric])
  next
    case (Resolved res)
    obtain ra m2 handler2 h2 where
      a: "applyHeaders routeID opts res (m1, handler, h1) = (ra, m2, handler2, h2)"
      by (cases "applyHeaders routeID opts res (m1, handler, h1)")
    note f2 = applyHeaders_frame[OF a]
    obtain m3 h3 where
      s3: "suspend (now h2 + sleep_ms ra) (m2, emit (Debug429 (route routeID) ra) h2) = (m3, h3)"
      by (cases "suspend (now h2 + sleep_ms ra) (m2, emit (Debug429 (route routeID) ra) h2)")
    from Resolved s1 a s3 f1 f2 show ?thesis
      by (simp add: attempt_def Let_def h0_def[symmetric] split: sum.splits)
  qed
qed

lemma attempt_handler:
  assumes "res_headers res = Some get"
  shows "fst (snd (snd (attempt routeID url opts r (Resolved res, elapsed) (m, handler, h))))
           = updateLimits (now h + elapsed) (options m) get handler"
proof -
  define h0 where "h0 = emit (Fetch url r (globalTimeout m)) h"
  have n0: "now h0 = now h" by (simp add: h0_def emit_def)
  obtain m1 h1 where s1: "suspend (now h0 + elapsed) (m, h0) = (m1, h1)"
    by (cases "suspend (now h0 + elapsed) (m, h0)")
  note f1 = suspend_frame[OF s1]
  obtain ra m2 handler2 h2 where
    a: "applyHeaders routeID opts res (m1, handler, h1) = (ra, m2, handler2, h2)"
    by (cases "applyHeaders routeID opts res (m1, handler, h1)")
  from applyHeaders_handler[OF assms, of routeID opts m1 handler h1] a f1 n0
  have h2: "handler2 = updateLimits (now h + elapsed) (options m) get handler" by simp
  obtain m3 h3 where
    s3: "suspend (now h2 + sleep_ms ra) (m2, emit (Debug429 (route routeID) ra) h2) = (m3, h3)"
    by (cases "suspend (now h2 + sleep_ms ra) (m2, emit (Debug429 (route routeID) ra) h2)")
  from s1 a s3 h2 show ?thesis
    by (simp add: attempt_def Let_def h0_def[symmetric] split: sum.splits)
qed


subsection \<open>The retry delay\<close>

text \<open>
  Claim C4. For a response carrying a (non-empty) \<open>Retry-After\<close> header, the computed
  \<open>retryAfter\<close> is the numeric header value times 1000 when there is no \<open>Via\<close> header,
  and times 1 when there is a (non-empty) \<open>Via\<close> header, plus \<open>options.offset\<close>; when
  there is no \<open>Retry-After\<close> header it is 0.
\<close>

theorem retryAfter_from_headers:
  assumes "res_headers res = Some get"
  shows "(get ''Retry-After'' = Some v \<and> v \<noteq> [] \<and> get ''Via'' = None \<longrightarrow>
            fst (applyHeaders routeID opts res (m, handler, h))
              = js_add (js_mul (Number v) (Fin 1000)) (Fin (of_int (offset (options m)))))
       \<and> (get ''Retry-After'' = Some v \<and> v \<noteq> [] \<and> get ''Via'' = Some w \<and> w \<noteq> [] \<longrightarrow>
            fst (applyHeaders routeID opts res (m, handler, h))
              = js_add (js_mul (Number v) (Fin 1)) (Fin (of_int (offset (options m)))))
       \<and> (get ''Retry-After'' = None \<longrightarrow>
            fst (applyHeaders routeID opts res (m, handler, h)) = Fin 0)"
  by (simp add: applyHeaders_retryAfter[OF assms] retryAfter_of_def Let_def)

text \<open>
  The theorem at \<open>Retry-After: 1\<close> without \<open>Via\<close> (1100 ms with the default offset), at
  \<open>Retry-After: 2\<close> with \<open>Via\<close> (102 ms), and at a response without \<open>Retry-After\<close>.
\<close>

theorem retryAfter_from_headers_witness:
  "fst (applyHeaders example_route example_init response_429
          (example_manager, example_handler, example_host)) = Fin 1100
   \<and> fst (applyHeaders example_route example_init response_429_global
          (example_manager, example_handler, example_host)) = Fin 102
   \<and> fst (applyHeaders example_route example_init response_200
          (example_manager, example_handler, example_host)) = Fin 0"
proof -
  have h1: "res_headers response_429 = Some (map_of [(''Retry-After'', ''1'')])"
    by (simp add: response_429_def)
  have h2: "res_headers response_429_global
              = Some (map_of [(''Retry-After'', ''2''), (''Via'', ''1.1 proxy''),
                        (''X-RateLimit-Global'', ''true'')])"
    by (simp add: response_429_global_def)
  have h3: "res_headers response_200
              = Some (map_of [(''X-RateLimit-Limit'', ''5''), (''X-RateLimit-Remaining'', ''4''),
                        (''X-RateLimit-Reset-After'', ''2''), (''Content-Type'', ''application/json'')])"
    by (simp add: response_200_def)
  have v1: "js_add (js_mul (Number ''1'') (Fin 1000)) (Fin (of_int (offset (options example_manager))))
              = Fin 1100"
    by code_simp
  have v2: "js_add (js_mul (Number ''2'') (Fin 1)) (Fin (of_int (offset (options example_manager))))
              = Fin 102"
    by code_simp
  from retryAfter_from_headers[OF h1, where v = "''1''" and routeID = example_route
      and opts = example_init and m = example_manager and handler = example_handler
      and h = example_host] v1
  have "fst (applyHeaders example_route example_init response_429
          (example_manager, example_handler, example_host)) = Fin 1100"
    by simp
  moreover from retryAfter_from_headers[OF h2, where v = "''2''" and w = "''1.1 proxy''"
      and routeID = example_route and opts = example_init and m = example_manager
      and handler = example_handler and h = example_host] v2
  have "fst (applyHeaders example_route example_init response_429_global
          (example_manager, example_handler, example_host)) = Fin 102"
    by simp
  moreover from retryAfter_from_headers[OF h3, where routeID = example_route
      and opts = example_init and m = example_manager and handler = example_handler
      and h = example_host]
  have "fst (applyHeaders example_route example_init response_200
          (example_manager, example_handler, example_host)) = Fin 0"
    by simp
  ultimately show ?thesis by blast
qed

subsection \<open>The bucket state\<close>

text \<open>
  Claim C7. After a response that carries headers, the handler's \<open>limit\<close> is the
  \<open>X-RateLimit-Limit\<close> value, or infinity when that header is absent; \<open>remaining\<close> is
  the \<open>X-RateLimit-Remaining\<close> value, or 1 when absent; \<open>reset\<close> is
  \<open>now + value * 1000 + options.offset\<close> when \<open>X-RateLimit-Reset-After\<close> is present, and
  exactly \<open>now\<close>, with no offset, when it is absent. Here \<open>now\<close> is the time the response
  arrives, and a header is present when it has a non-empty value.
\<close>

theorem limits_from_headers:
  assumes "res_headers res = Some get"
    and "attempt routeID url opts r (Resolved res, elapsed) (m, handler, h) = (v, m', handler', h')"
  shows "(get ''X-RateLimit-Limit'' = Some x \<and> x \<noteq> [] \<longrightarrow> limit handler' = Number x)
       \<and> (get ''X-RateLimit-Limit'' = None \<longrightarrow> limit handler' = PosInfinity)
       \<and> (get ''X-RateLimit-Remaining'' = Some y \<and> y \<noteq> [] \<longrightarrow> remaining handler' = Number y)
       \<and> (get ''X-RateLimit-Remaining'' = None \<longrightarrow> remaining handler' = Fin 1)
       \<and> (get ''X-RateLimit-Reset-After'' = Some z \<and> z \<noteq> [] \<longrightarrow>
            reset handler'
              = js_add (js_add (Fin (of_int (now h + elapsed))) (js_mul (Number z) (Fin 1000)))
                  (Fin (of_int (offset (options m)))))
       \<and> (get ''X-RateLimit-Reset-After'' = None \<longrightarrow>
            reset handler' = Fin (of_int (now h + elapsed)))"
proof -
  from attempt_handler[OF assms(1), of routeID url opts r elapsed m handler h] assms(2)
  have "handler' = updateLimits (now h + elapsed) (options m) get handler" by simp
  then show ?thesis
    by (simp add: updateLimits_def js_add_commute)
qed

text \<open>
  The theorem at a response with limit 5, remaining 4, reset after 2 s that arrives at
  time 1050 (reset at 3150 with the default offset), and at a response with none of
  the three headers.
\<close>

theorem limits_from_headers_witness:
  "limit (fst (snd (snd (attempt example_route ''u'' example_init 0 (Resolved response_200, 50)
            (example_manager, example_handler, example_host))))) = Fin 5
   \<and> remaining (fst (snd (snd (attempt example_route ''u'' example_init 0 (Resolved response_200, 50)
            (example_manager, example_handler, example_host))))) = Fin 4
   \<and> reset (fst (snd (snd (attempt example_route ''u'' example_init 0 (Resolved response_200, 50)
            (example_manager, example_handler, example_host))))) = Fin 3150
   \<and> limit (fst (snd (snd (attempt example_route ''u'' example_init 0 (Resolved response_503, 50)
            (example_manager, example_handler, example_host))))) = PosInfinity
   \<and> remaining (fst (snd (snd (attempt example_route ''u'' example_init 0 (Resolved response_503, 50)
            (example_manager, example_handler, example_host))))) = Fin 1
   \<and> reset (fst (snd (snd (attempt example_route ''u'' example_init 0 (Resolved response_503, 50)
            (example_manager, example_handler, example_host))))) = Fin 1050"
proof -
  have h1: "res_headers response_200
              = Some (map_of [(''X-RateLimit-Limit'', ''5''), (''X-RateLimit-Remaining'', ''4''),
                        (''X-RateLimit-Reset-After'', ''2''), (''Content-Type'', ''application/json'')])"
    by (simp add: response_200_def)
  have h2: "res_headers response_503 = Some Map.empty"
    by (simp add: response_503_def)
  obtain v1 m1 handler1 host1 where
    a1: "attempt example_route ''u'' example_init 0 (Resolved response_200, 50)
            (example_manager, example_handler, example_host) = (v1, m1, handler1, host1)"
    by (rule prod_cases4)
  obtain v2 m2 handler2 host2 where
    a2: "attempt example_route ''u'' example_init 0 (Resolved response_503, 50)
            (example_manager, example_handler, example_host) = (v2, m2, handler2, host2)"
    by (rule prod_cases4)
  have n: "Number ''5'' = Fin 5" "Number ''4'' = Fin 4"
    "js_add (js_add (Fin (of_int (now example_host + 50))) (js_mul (Number ''2'') (Fin 1000)))
       (Fin (of_int (offset (options example_manager)))) = Fin 3150"
    "Fin (of_int (now example_host + 50)) = Fin 1050"
    by code_simp+
  from limits_from_headers[OF h1 a1, where x = "''5''" and y = "''4''" and z = "''2''"] n
  have "limit handler1 = Fin 5 \<and> remaining handler1 = Fin 4 \<and> reset handler1 = Fin 3150"
    by simp
  moreover from limits_from_headers[OF h2 a2] n
  have "limit handler2 = PosInfinity \<and> remaining handler2 = Fin 1 \<and> reset handler2 = Fin 1050"
    by simp
  ultimately show ?thesis by (simp add: a1 a2)
qed

subsection \<open>The status of the response\<close>




subsection \<open>Retries\<close>

lemma makeRequest_sent:
  assumes "r \<le> retries (options m)"
    and "makeRequest routeID url opts r script (m, handler, h) = (res, m', handler', h')"
  shows "\<exists>rs. sent h' = sent h @ rs \<and> list_all (\<lambda>x. r \<le> x \<and> x \<le> retries (options m)) rs
              \<and> options m' = options m"
  using assms
proof (induction script arbitrary: r m handler h)
  case Nil
  then show ?case
    by (auto simp: emit_def sent_def fetch_retries_append)
next
  case (Cons oc script)
  obtain out elapsed where oc: "oc = (out, elapsed)" by (cases oc)
  obtain v m1 handler1 h1 where
    a: "attempt routeID url opts r oc (m, handler, h) = (v, m1, handler1, h1)"
    by (rule prod_cases4)
  note f = attempt_frame[OF a]
  show ?case
  proof (cases v)
    case (Return x)
    with Cons.prems a f show ?thesis by auto
  next
    case (Again n)
    from a have "fst (attempt routeID url opts r (out, elapsed) (m, handler, h)) = Again n"
      using Again oc by simp
    then have n: "n = r \<or> (n = r + 1 \<and> r \<noteq> retries (options m))"
      unfolding attempt_verdict by (auto split: outcome.splits if_splits sum.splits)
    with Cons.prems(1) have le: "n \<le> retries (options m1)" "r \<le> n" using f by auto
    from Cons.prems(2) a Again
    have "makeRequest routeID url opts n script (m1, handler1, h1) = (res, m', handler', h')"
      by simp
    from Cons.IH[OF le(1) this] obtain rs where rs: "sent h' = sent h1 @ rs"
      "list_all (\<lambda>x. n \<le> x \<and> x \<le> retries (options m1)) rs" "options m' = options m1"
      by blast
    have "list_all (\<lambda>x. r \<le> x \<and> x \<le> retries (options m)) (r # rs)"
      using rs(2) le(2) f Cons.prems(1) by (auto simp: list_all_iff)
    with rs f show ?thesis by (intro exI[of _ "r # rs"]) simp
  qed
qed

lemma makeRequest_429_run:
  assumes "list_all (\<lambda>(out, elapsed). \<exists>res. out = Resolved res \<and> status res = 429) run"
  shows "\<exists>m' handler' h'.
           makeRequest routeID url opts r (run @ script) (m, handler, h)
             = makeRequest routeID url opts r script (m', handler', h')
           \<and> sent h' = sent h @ replicate (length run) r \<and> options m' = options m"
  using assms
proof (induction run arbitrary: m handler h)
  case Nil
  show ?case by (intro exI[of _ m] exI[of _ handler] exI[of _ h]) simp
next
  case (Cons oc run)
  obtain out elapsed where oc: "oc = (out, elapsed)" by (cases oc)
  with Cons.prems obtain res where res: "out = Resolved res" "status res = 429" by auto
  obtain v m1 handler1 h1 where
    a: "attempt routeID url opts r oc (m, handler, h) = (v, m1, handler1, h1)"
    by (rule prod_cases4)
  note f = attempt_frame[OF a]
  from a have "fst (attempt routeID url opts r (out, elapsed) (m, handler, h)) = v"
    using oc by simp
  then have v: "v = Again r"
    unfolding attempt_verdict using res by (simp add: ok_def)
  from Cons.prems
  have "list_all (\<lambda>(out, elapsed). \<exists>res. out = Resolved res \<and> status res = 429) run"
    by simp
  from Cons.IH[OF this, of m1 handler1 h1] obtain m' handler' h' where
    ih: "makeRequest routeID url opts r (run @ script) (m1, handler1, h1)
             = makeRequest routeID url opts r script (m', handler', h')"
       "sent h' = sent h1 @ replicate (length run) r" "options m' = options m1"
    by blast
  have "makeRequest routeID url opts r ((oc # run) @ script) (m, handler, h)
        = makeRequest routeID url opts r script (m', handler', h')"
    using a v ih(1) by simp
  moreover have "sent h' = sent h @ replicate (length (oc # run)) r"
    using ih(2) f by (simp add: replicate_append_same)
  moreover have "options m' = options m" using ih(3) f by simp
  ultimately show ?case by (intro exI[of _ m'] exI[of _ handler'] exI[of _ h']) simp
qed

text \<open>
  Claim C3, as the code has it. Provided \<open>options.retries\<close> is not negative: in every
  execution of \<open>makeRequest\<close> entered with a \<open>retries\<close> argument between 0 and
  \<open>options.retries\<close> (\<open>push\<close> enters it with 0), the \<open>retries\<close> argument of every send
  lies between 0 and \<open>options.retries\<close>. An abort, and likewise a 5xx response, at a
  counter other than \<open>options.retries\<close> re-enters the send step with the counter
  incremented; at the counter \<open>options.retries\<close> the error propagates (the abort error,
  or the HTTP error). A 429 response re-enters the send step with the counter
  unchanged, for any number of 429 responses in a row.
\<close>

theorem makeRequest_retries_bounded:
  assumes "0 \<le> r" and "r \<le> retries (options m)"
  shows "(makeRequest routeID url opts r script (m, handler, h) = (res, m', handler', h') \<longrightarrow>
            (\<exists>rs. sent h' = sent h @ rs
               \<and> list_all (\<lambda>x. 0 \<le> x \<and> x \<le> retries (options m)) rs))
       \<and> fst (attempt routeID url opts r (Rejected ''AbortError'', elapsed) (m, handler, h))
           = (if r \<noteq> retries (options m) then Again (r + 1)
              else Return (Inl (FetchRejected ''AbortError'')))
       \<and> (500 \<le> status res' \<and> status res' < 600 \<longrightarrow>
            fst (attempt routeID url opts r (Resolved res', elapsed) (m, handler, h))
              = (if r \<noteq> retries (options m) then Again (r + 1)
                 else Return (Inl (HTTPError (statusText res') ''Response'' (status res')
                                     (init_method opts) url))))
       \<and> (list_all (\<lambda>(out, elapsed). \<exists>res. out = Resolved res \<and> status res = 429) run \<longrightarrow>
            (\<exists>m1 handler1 h1.
               makeRequest routeID url opts r (run @ script) (m, handler, h)
                 = makeRequest routeID url opts r script (m1, handler1, h1)
               \<and> sent h1 = sent h @ replicate (length run) r))"
proof (intro conjI impI)
  assume mr: "makeRequest routeID url opts r script (m, handler, h) = (res, m', handler', h')"
  from makeRequest_sent[OF assms(2) mr] obtain rs where
    rs: "sent h' = sent h @ rs" "list_all (\<lambda>x. r \<le> x \<and> x \<le> retries (options m)) rs"
    by blast
  from rs(2) assms(1) have "list_all (\<lambda>x. 0 \<le> x \<and> x \<le> retries (options m)) rs"
    by (auto simp: list_all_iff)
  with rs(1)
  show "\<exists>rs. sent h' = sent h @ rs \<and> list_all (\<lambda>x. 0 \<le> x \<and> x \<le> retries (options m)) rs"
    by blast
next
  show "fst (attempt routeID url opts r (Rejected ''AbortError'', elapsed) (m, handler, h))
           = (if r \<noteq> retries (options m) then Again (r + 1)
              else Return (Inl (FetchRejected ''AbortError'')))"
    by (simp add: attempt_verdict)
next
  assume "500 \<le> status res' \<and> status res' < 600"
  then show "fst (attempt routeID url opts r (Resolved res', elapsed) (m, handler, h))
              = (if r \<noteq> retries (options m) then Again (r + 1)
                 else Return (Inl (HTTPError (statusText res') ''Response'' (status res')
                                     (init_method opts) url)))"
    by (simp add: attempt_verdict ok_def)
next
  assume "list_all (\<lambda>(out, elapsed). \<exists>res. out = Resolved res \<and> status res = 429) run"
  from makeRequest_429_run[OF this, of routeID url opts r script m handler h]
  show "\<exists>m1 handler1 h1.
               makeRequest routeID url opts r (run @ script) (m, handler, h)
                 = makeRequest routeID url opts r script (m1, handler1, h1)
               \<and> sent h1 = sent h @ replicate (length run) r"
    by blast
qed

text \<open>
  The theorem with the default \<open>options.retries = 1\<close>: two 503 responses give the
  sends 0 and 1; an abort at counter 0 re-enters with 1; a 503 at counter 1 throws;
  two 429 responses leave the counter at 0.
\<close>

theorem makeRequest_retries_bounded_witness:
  "list_all (\<lambda>x. 0 \<le> x \<and> x \<le> retries (options example_manager))
     (sent (snd (snd (snd (makeRequest example_route ''u'' example_init 0
        [(Resolved response_503, 50), (Resolved response_503, 50)]
        (example_manager, example_handler, example_host))))))
   \<and> fst (attempt example_route ''u'' example_init 0 (Rejected ''AbortError'', 15000)
          (example_manager, example_handler, example_host)) = Again 1
   \<and> fst (attempt example_route ''u'' example_init 1 (Resolved response_503, 50)
          (example_manager, example_handler, example_host))
       = Return (Inl (HTTPError ''Service Unavailable'' ''Response'' 503 ''GET'' ''u''))
   \<and> (\<exists>m1 handler1 h1.
         makeRequest example_route ''u'' example_init 0
           ([(Resolved response_429, 50), (Resolved response_429, 50)]
              @ [(Resolved response_200, 50)])
           (example_manager, example_handler, example_host)
         = makeRequest example_route ''u'' example_init 0 [(Resolved response_200, 50)]
             (m1, handler1, h1)
         \<and> sent h1 = [0, 0])"
proof -
  have b0: "(0::int) \<le> 0" "0 \<le> retries (options example_manager)"
    and b1: "(0::int) \<le> 1" "1 \<le> retries (options example_manager)"
    and ne: "0 \<noteq> retries (options example_manager)"
    and eq: "1 = retries (options example_manager)"
    by code_simp+
  have s0: "sent example_host = []"
    by (simp add: example_host_def sent_def)
  have c: "500 \<le> status response_503 \<and> status response_503 < 600"
    "status response_503 = 503" "statusText response_503 = ''Service Unavailable''"
    "init_method example_init = ''GET''"
    by (simp_all add: response_503_def example_init_def)
  have run: "list_all (\<lambda>(out, elapsed). \<exists>res. out = Resolved res \<and> status res = 429)
               [(Resolved response_429, 50), (Resolved response_429, 50)]"
    by (simp add: response_429_def)
  obtain res m' handler' h' where
    mr: "makeRequest example_route ''u'' example_init 0
           [(Resolved response_503, 50), (Resolved response_503, 50)]
           (example_manager, example_handler, example_host) = (res, m', handler', h')"
    by (rule prod_cases4)
  from makeRequest_retries_bounded[OF b0, where routeID = example_route and url = "''u''"
      and opts = example_init and handler = example_handler and h = example_host
      and script = "[(Resolved response_503, 50), (Resolved response_503, 50)]"
      and res = res and m' = m' and handler' = handler' and h' = h'] mr s0
  have "list_all (\<lambda>x. 0 \<le> x \<and> x \<le> retries (options example_manager)) (sent h')"
    by auto
  then have 1: "list_all (\<lambda>x. 0 \<le> x \<and> x \<le> retries (options example_manager))
     (sent (snd (snd (snd (makeRequest example_route ''u'' example_init 0
        [(Resolved response_503, 50), (Resolved response_503, 50)]
        (example_manager, example_handler, example_host))))))"
    unfolding mr by simp
  from makeRequest_retries_bounded[OF b0, where routeID = example_route and url = "''u''"
      and opts = example_init and handler = example_handler and h = example_host
      and elapsed = 15000] ne
  have 2: "fst (attempt example_route ''u'' example_init 0 (Rejected ''AbortError'', 15000)
          (example_manager, example_handler, example_host)) = Again 1"
    by simp
  from makeRequest_retries_bounded[OF b1, where routeID = example_route and url = "''u''"
      and opts = example_init and handler = example_handler and h = example_host
      and elapsed = 50 and res' = response_503] eq c
  have 3: "fst (attempt example_route ''u'' example_init 1 (Resolved response_503, 50)
          (example_manager, example_handler, example_host))
       = Return (Inl (HTTPError ''Service Unavailable'' ''Response'' 503 ''GET'' ''u''))"
    by simp
  from makeRequest_retries_bounded[OF b0, where routeID = example_route and url = "''u''"
      and opts = example_init and handler = example_handler and h = example_host
      and run = "[(Resolved response_429, 50), (Resolved response_429, 50)]"
      and script = "[(Resolved response_200, 50)]"] run s0
  have 4: "\<exists>m1 handler1 h1.
         makeRequest example_route ''u'' example_init 0
           ([(Resolved response_429, 50), (Resolved response_429, 50)]
              @ [(Resolved response_200, 50)])
           (example_manager, example_handler, example_host)
         = makeRequest example_route ''u'' example_init 0 [(Resolved response_200, 50)]
             (m1, handler1, h1)
         \<and> sent h1 = [0, 0]"
    by (simp add: numeral_2_eq_2)
  from 1 2 3 4 show ?thesis by blast
qed

text \<open>
  Against C3 as stated: with \<open>options.retries = -1\<close> the test \<open>retries !==
  options.retries\<close> never fails, and three 503 responses are sent with the counters 0,
  1 and 2 and then a fourth send with counter 3: no counter is bounded by
  \<open>options.retries\<close>, and the error does not propagate.
\<close>

theorem makeRequest_negative_retries_counterexample:
  "retries (options example_manager_negative_retries) = - 1
   \<and> fst (makeRequest example_route ''u'' example_init 0
       [(Resolved response_503, 50), (Resolved response_503, 50), (Resolved response_503, 50)]
       (example_manager_negative_retries, example_handler, example_host)) = None
   \<and> sent (snd (snd (snd (makeRequest example_route ''u'' example_init 0
       [(Resolved response_503, 50), (Resolved response_503, 50), (Resolved response_503, 50)]
       (example_manager_negative_retries, example_handler, example_host)))))
     = [0, 1, 2, 3]"
  by code_simp

subsection \<open>The global limit\<close>

text \<open>
  Claim C2 asks that no handler call \<open>fetch\<close> while the manager's \<open>globalTimeout\<close> is
  set. \<open>push\<close> awaits \<open>globalTimeout\<close> once, before it looks at the handler's own
  limit, and \<open>makeRequest\<close> never looks at it. Two runs in which \<open>fetch\<close> is called
  while \<open>globalTimeout\<close> is pending (the third component of \<open>Fetch\<close>):

  \<^item> a 503 response that announces a global limit (\<open>X-RateLimit-Global\<close>,
    \<open>Retry-After: 2\<close>) sets \<open>globalTimeout\<close>, due at 3150, and the retry is sent at once,
    at 1050;
  \<^item> a handler that is limited until 1500 sleeps from 1000 on; at 1200 another handler
    sets a global limit of 5000 ms, due at 6200; the sleeping handler wakes at 1500 and
    sends.
\<close>

theorem push_fetches_while_globalTimeout_pending:
  "events (snd (snd (snd (push example_route ''u'' example_init
       [(Resolved response_503_global, 50), (Resolved response_200, 50)]
       (example_manager, example_handler, example_host)))))
     = [Fetch ''u'' 0 None, Fetch ''u'' 1 (Some 3150)]
   \<and> events (snd (snd (snd (push example_route ''u'' example_init
       [(Resolved response_200, 50)]
       (example_manager, example_limited_handler,
        example_host\<lparr>others := [(1200, Fin 5000)]\<rparr>)))))
     = [Ratelimited (Fin 500) PosInfinity ''GET'' ''UnknownHash(/channels/42/messages)''
          ''/channels/42/messages'' ''42'',
        Fetch ''u'' 0 (Some 6200)]"
  by code_simp

text \<open>
  What \<open>push\<close> does ensure: a global limit that is pending when the request reaches
  the head of the queue has run out before the first send, if the handler itself is
  not limited then. A 429 that announces a global limit is answered correctly as well:
  the handler sleeps as long as the limit lasts.
\<close>

lemma push_awaits_pending_globalTimeout:
  "events (snd (snd (snd (push example_route ''u'' example_init [(Resolved response_200, 50)]
       (example_manager\<lparr>globalTimeout := Some 6000\<rparr>, example_handler,
        example_host\<lparr>timers := [6000]\<rparr>)))))
     = [Fetch ''u'' 0 None]
   \<and> events (snd (snd (snd (push example_route ''u'' example_init
       [(Resolved response_429_global, 50), (Resolved response_200, 50)]
       (example_manager, example_handler, example_host)))))
     = [Fetch ''u'' 0 None, Debug429 ''/channels/42/messages'' (Fin 102), Fetch ''u'' 0 None]"
  by code_simp


end
